theory Spec2Isabelle
  imports Complex_Main
begin

section \<open>Edge-based elasticity plugin: elasticity.h and solid.cc\<close>

text \<open>
  The embedding follows the two source files function by function.  Conventions:
  \<^item> \<open>mjtNum\<close> (a C double) is modelled by the real numbers: the theorems below are
    statements about the arithmetic the code writes down, not about IEEE rounding,
    infinities or NaN.  Division by zero is therefore outside the model
    (HOL's \<open>x / 0\<close> is \<open>0\<close>): a zero time step or a zero rest volume is not an
    input the theorems speak about.
  \<^item> A C pointer or host array is a view of memory, a function from index to value
    (\<open>'a ptr\<close>); pointer arithmetic \<open>p + k\<close> is \<open>ptr_add p k\<close>.
  \<^item> A \<open>std::vector\<close> and a local fixed-size array is a list; an indexed store is
    \<open>xs[i := v]\<close>.  Reads and writes out of range are undefined in C++; the theorems
    state the index conditions under which the list model and the code agree.
  \<^item> C \<open>int\<close> indices and counts are natural numbers, except where the code uses
    \<open>-1\<close> as a marker (\<open>f0\<close>, \<open>body_plugin\<close>, the plugin instance).
  \<^item> \<open>for (int i = a; i < b; i++) body\<close> is \<open>fold body [a..<b]\<close> on the loop's state.
  \<^item> \<open>mju_error\<close> ends the computation: functions that can reach it return
    \<open>mj_error + 'a\<close>.
\<close>

subsection \<open>Data\<close>

type_synonym mjtNum = real

type_synonym 'a ptr = "nat \<Rightarrow> 'a"

definition ptr_add :: "'a ptr \<Rightarrow> nat \<Rightarrow> 'a ptr" where
  "ptr_add p k = (\<lambda>i. p (k + i))"

text \<open>\<open>vec_data xs\<close> is \<open>xs.data()\<close>: the vector's storage seen through a pointer.\<close>

definition vec_data :: "'a list \<Rightarrow> 'a ptr" where
  "vec_data xs = (\<lambda>i. xs ! i)"

text \<open>
  Writing through a pointer \<open>mem + off\<close> changes the memory it points into:
  \<open>ptr_store mem off view\<close> is the memory after the view obtained from
  \<open>ptr_add mem off\<close> has been updated to \<open>view\<close>.
\<close>

definition ptr_store :: "'a ptr \<Rightarrow> nat \<Rightarrow> 'a ptr \<Rightarrow> 'a ptr" where
  "ptr_store mem off view = (\<lambda>a. if off \<le> a then view (a - off) else mem a)"

datatype mj_error = mju_error string

datatype stencil = Stencil2D | Stencil3D

fun kNumEdges :: "stencil \<Rightarrow> nat" where
  "kNumEdges Stencil2D = 3"
| "kNumEdges Stencil3D = 6"

fun kNumVerts :: "stencil \<Rightarrow> nat" where
  "kNumVerts Stencil2D = 3"
| "kNumVerts Stencil3D = 4"

fun edge :: "stencil \<Rightarrow> nat list list" where
  "edge Stencil2D = [[1, 2], [2, 0], [0, 1]]"
| "edge Stencil3D = [[0, 1], [1, 2], [2, 0], [2, 3], [0, 3], [1, 3]]"

text \<open>The fields of \<open>mjModel\<close> that the two files read or write.\<close>

record mjModel =
  nbody :: nat
  nflex :: nat
  opt_timestep :: mjtNum
  body_plugin :: "int ptr"
  body_simple :: "nat ptr"
  body_dofnum :: "nat ptr"
  body_dofadr :: "nat ptr"
  flex_dim :: "nat ptr"
  flex_vertadr :: "nat ptr"
  flex_vertnum :: "nat ptr"
  flex_vertbodyid :: "nat ptr"
  flex_edgeadr :: "nat ptr"
  flex_edgenum :: "nat ptr"
  flex_elemadr :: "nat ptr"
  flex_elemnum :: "nat ptr"
  flex_elemdataadr :: "nat ptr"
  flex_elemedgeadr :: "nat ptr"
  flex_elem :: "nat ptr"
  flex_elemedge :: "nat ptr"
  flex_xvert0 :: "mjtNum ptr"
  flexedge_length0 :: "mjtNum ptr"
  flex_stiffness :: "mjtNum ptr"

subsection \<open>elasticity.h: GradSquaredLengths and ComputeForce\<close>

definition GradSquaredLengths :: "stencil \<Rightarrow> mjtNum ptr \<Rightarrow> nat ptr \<Rightarrow> mjtNum list list list" where
  "GradSquaredLengths T x v =
     map (\<lambda>e.
       [map (\<lambda>d. x (3 * v (edge T ! e ! 0) + d) - x (3 * v (edge T ! e ! 1) + d)) [0..<3],
        map (\<lambda>d. x (3 * v (edge T ! e ! 1) + d) - x (3 * v (edge T ! e ! 0) + d)) [0..<3]])
     [0..<kNumEdges T]"

text \<open>Lines 87-91: the elongations of the edges of element \<open>t\<close>.\<close>

definition gather_elongation :: "stencil \<Rightarrow> mjtNum list \<Rightarrow> nat ptr \<Rightarrow> nat \<Rightarrow> mjtNum list" where
  "gather_elongation T elongationglob edgeelem t =
     map (\<lambda>e. elongationglob ! (edgeelem (t * kNumEdges T + e))) [0..<kNumEdges T]"

text \<open>
  Lines 93-102: unpack the triangular representation.  The local array \<open>metric\<close> is
  not initialised in the source; the loop writes every cell, and the model starts
  from zeros.
\<close>

definition unpack_metric :: "stencil \<Rightarrow> mjtNum ptr \<Rightarrow> nat \<Rightarrow> mjtNum list \<times> nat" where
  "unpack_metric T k t =
     fold (\<lambda>ed1. fold (\<lambda>ed2 (metric, id).
             ((metric[kNumEdges T * ed1 + ed2 := k (21 * t + id)])
                     [kNumEdges T * ed2 + ed1 := k (21 * t + id)], id + 1))
           [ed1..<kNumEdges T])
       [0..<kNumEdges T] (replicate (kNumEdges T * kNumEdges T) 0, 0)"

text \<open>Lines 108-120: the local force of one element.\<close>

definition local_force ::
  "stencil \<Rightarrow> mjtNum list \<Rightarrow> mjtNum list list list \<Rightarrow> mjtNum list \<Rightarrow> mjtNum list" where
  "local_force T elongation gradient metric =
     fold (\<lambda>ed1. fold (\<lambda>ed2. fold (\<lambda>i. fold (\<lambda>x force.
               force[3 * (edge T ! ed2 ! i) + x :=
                 force ! (3 * (edge T ! ed2 ! i) + x) -
                 elongation ! ed1 * gradient ! ed2 ! i ! x *
                 metric ! (kNumEdges T * ed1 + ed2)])
             [0..<3]) [0..<2]) [0..<kNumEdges T])
       [0..<kNumEdges T] (replicate (kNumVerts T * 3) 0)"

text \<open>Lines 122-127: insert into the global force.\<close>

definition insert_force :: "stencil \<Rightarrow> nat ptr \<Rightarrow> mjtNum list \<Rightarrow> mjtNum list \<Rightarrow> mjtNum list" where
  "insert_force T v force qfrc_passive =
     fold (\<lambda>i. fold (\<lambda>x q. q[3 * v i + x := q ! (3 * v i + x) + force ! (3 * i + x)]) [0..<3])
       [0..<kNumVerts T] qfrc_passive"

definition ComputeForce ::
  "stencil \<Rightarrow> mjtNum list \<Rightarrow> mjtNum list \<Rightarrow> mjModel \<Rightarrow> nat \<Rightarrow> mjtNum ptr \<Rightarrow> mjtNum list" where
  "ComputeForce T qfrc_passive elongationglob m flex xpos =
     (let k = ptr_add (flex_stiffness m) (21 * flex_elemadr m flex);
          dim = flex_dim m flex;
          elem = ptr_add (flex_elem m) (flex_elemdataadr m flex);
          edgeelem = ptr_add (flex_elemedge m) (flex_elemedgeadr m flex)
      in fold (\<lambda>t q.
            let v = ptr_add elem ((dim + 1) * t);
                gradient = GradSquaredLengths T xpos v;
                elongation = gather_elongation T elongationglob edgeelem t;
                metric = fst (unpack_metric T k t);
                force = local_force T elongation gradient metric
            in insert_force T v force q)
          [0..<flex_elemnum m flex]
          (replicate (length qfrc_passive) 0))"

subsection \<open>elasticity.h: AddFlexForce\<close>

record mjData =
  flexedge_length :: "mjtNum ptr"
  flexvert_xpos :: "mjtNum ptr"
  qfrc_passive :: "mjtNum ptr"

text \<open>
  \<open>mj_applyFT\<close> belongs to the host engine and is not part of the two files; it is a
  parameter of the model, with the arguments of the C function: model, data, force,
  torque (\<open>None\<close> for the null pointer), point, body and the generalized-force
  target, which it returns updated.
\<close>

type_synonym applyFT =
  "mjModel \<Rightarrow> mjData \<Rightarrow> mjtNum ptr \<Rightarrow> mjtNum ptr option \<Rightarrow> mjtNum ptr \<Rightarrow> nat \<Rightarrow> mjtNum ptr
     \<Rightarrow> mjtNum ptr"

text \<open>The body of the loop over the vertices (lines 140-150).\<close>

definition AddFlexForce_vertex ::
  "applyFT \<Rightarrow> mjtNum list \<Rightarrow> mjModel \<Rightarrow> mjData \<Rightarrow> mjtNum ptr \<Rightarrow> nat ptr \<Rightarrow> nat
     \<Rightarrow> mjtNum ptr \<Rightarrow> mjtNum ptr" where
  "AddFlexForce_vertex mj_applyFT force m d xpos bodyid v qfrc =
     (let bid = bodyid v
      in if body_simple m bid \<noteq> 2
         then mj_applyFT m d (ptr_add (vec_data force) (3 * v)) None (ptr_add xpos (3 * v)) bid qfrc
         else
           let dofnum = body_dofnum m bid;
               dofadr = body_dofadr m bid
           in fold (\<lambda>x q. q(dofadr + x := q (dofadr + x) + force ! (3 * v + x)))
                [0..<dofnum] qfrc)"

definition AddFlexForce ::
  "applyFT \<Rightarrow> mjtNum ptr \<Rightarrow> mjtNum list \<Rightarrow> mjModel \<Rightarrow> mjData \<Rightarrow> mjtNum ptr \<Rightarrow> nat \<Rightarrow> mjtNum ptr" where
  "AddFlexForce mj_applyFT qfrc force m d xpos f0 =
     (let bodyid = ptr_add (flex_vertbodyid m) (flex_vertadr m f0)
      in fold (AddFlexForce_vertex mj_applyFT force m d xpos bodyid)
           [0..<flex_vertnum m f0] qfrc)"

subsection \<open>elasticity.h: MetricTensor\<close>

text \<open>Lines 162-167: first invariant.\<close>

definition MetricTensor_trE :: "stencil \<Rightarrow> mjtNum list list \<Rightarrow> mjtNum list" where
  "MetricTensor_trE T basis =
     fold (\<lambda>e. fold (\<lambda>i trE. trE[e := trE ! e + basis ! e ! (4 * i)]) [0..<3])
       [0..<kNumEdges T] (replicate (kNumEdges T) 0)"

text \<open>Lines 169-178: second invariant.\<close>

definition MetricTensor_trEE :: "stencil \<Rightarrow> mjtNum list list \<Rightarrow> mjtNum list" where
  "MetricTensor_trEE T basis =
     fold (\<lambda>ed1. fold (\<lambda>ed2. fold (\<lambda>i. fold (\<lambda>j trEE.
               trEE[kNumEdges T * ed1 + ed2 :=
                 trEE ! (kNumEdges T * ed1 + ed2) +
                 basis ! ed1 ! (3 * i + j) * basis ! ed2 ! (3 * j + i)])
             [0..<3]) [0..<3]) [0..<kNumEdges T])
       [0..<kNumEdges T] (replicate (kNumEdges T * kNumEdges T) 0)"

text \<open>
  Lines 180-186: assembly of the full matrix \<open>k\<close> (not initialised in the source; every
  cell is written, the model starts from zeros).
\<close>

definition MetricTensor_k ::
  "stencil \<Rightarrow> mjtNum \<Rightarrow> mjtNum \<Rightarrow> mjtNum list \<Rightarrow> mjtNum list \<Rightarrow> mjtNum list" where
  "MetricTensor_k T mu la trE trEE =
     fold (\<lambda>ed1. fold (\<lambda>ed2 k.
             k[kNumEdges T * ed1 + ed2 :=
               mu * trEE ! (kNumEdges T * ed1 + ed2) + la * trE ! ed2 * trE ! ed1])
           [0..<kNumEdges T])
       [0..<kNumEdges T] (replicate (kNumEdges T * kNumEdges T) 0)"

text \<open>Lines 188-194: copy to the triangular representation; \<open>id\<close> counts the writes.\<close>

definition MetricTensor_copy ::
  "stencil \<Rightarrow> mjtNum ptr \<Rightarrow> nat \<Rightarrow> mjtNum list \<Rightarrow> mjtNum ptr \<times> nat" where
  "MetricTensor_copy T metric idx k =
     fold (\<lambda>ed1. fold (\<lambda>ed2 (mt, id).
             (mt(21 * idx + id := k ! (kNumEdges T * ed1 + ed2)), id + 1))
           [ed1..<kNumEdges T])
       [0..<kNumEdges T] (metric, 0)"

definition MetricTensor ::
  "stencil \<Rightarrow> mjtNum ptr \<Rightarrow> nat \<Rightarrow> mjtNum \<Rightarrow> mjtNum \<Rightarrow> mjtNum list list
     \<Rightarrow> mj_error + mjtNum ptr" where
  "MetricTensor T metric idx mu la basis =
     (let trE = MetricTensor_trE T basis;
          trEE = MetricTensor_trEE T basis;
          k = MetricTensor_k T mu la trE trEE;
          (metric', id) = MetricTensor_copy T metric idx k
      in if id \<noteq> kNumEdges T * (kNumEdges T + 1) div 2
         then Inl (mju_error ''incorrect stiffness matrix size'')
         else Inr metric')"

subsection \<open>solid.cc: geometry of a tetrahedron\<close>

definition face :: "nat list list" where
  "face = [[2, 1, 0], [0, 1, 3], [1, 2, 3], [2, 0, 3]]"

definition e2f :: "nat list list" where
  "e2f = [[2, 3], [1, 3], [2, 1], [1, 0], [0, 2], [0, 3]]"

text \<open>
  Modelled from the spec: \<open>mju_sub3\<close>, \<open>mju_cross\<close> and \<open>mju_dot3\<close>, the host engine's
  3-vector difference, cross product and dot product, which the two files call but do
  not define (the spec: a triple product of three edge vectors; the cross product of
  two face edge vectors).
\<close>

definition mju_sub3 :: "mjtNum ptr \<Rightarrow> mjtNum ptr \<Rightarrow> mjtNum list" where
  "mju_sub3 a b = [a 0 - b 0, a 1 - b 1, a 2 - b 2]"

definition mju_cross :: "mjtNum ptr \<Rightarrow> mjtNum ptr \<Rightarrow> mjtNum list" where
  "mju_cross a b = [a 1 * b 2 - a 2 * b 1, a 2 * b 0 - a 0 * b 2, a 0 * b 1 - a 1 * b 0]"

definition mju_dot3 :: "mjtNum ptr \<Rightarrow> mjtNum ptr \<Rightarrow> mjtNum" where
  "mju_dot3 a b = a 0 * b 0 + a 1 * b 1 + a 2 * b 2"

definition ComputeVolume :: "mjtNum ptr \<Rightarrow> nat ptr \<Rightarrow> mjtNum" where
  "ComputeVolume x v =
     (let edge1 = mju_sub3 (ptr_add x (3 * v 1)) (ptr_add x (3 * v 0));
          edge2 = mju_sub3 (ptr_add x (3 * v 2)) (ptr_add x (3 * v 0));
          edge3 = mju_sub3 (ptr_add x (3 * v 3)) (ptr_add x (3 * v 0));
          normal = mju_cross (vec_data edge2) (vec_data edge1)
      in mju_dot3 (vec_data normal) (vec_data edge3) / 6)"

definition ComputeBasis ::
  "mjtNum ptr \<Rightarrow> nat ptr \<Rightarrow> nat list \<Rightarrow> nat list \<Rightarrow> mjtNum \<Rightarrow> mjtNum list" where
  "ComputeBasis x v faceL faceR volume =
     (let edgesL = mju_sub3 (ptr_add x (3 * v (faceL ! 1))) (ptr_add x (3 * v (faceL ! 0))) @
                   mju_sub3 (ptr_add x (3 * v (faceL ! 2))) (ptr_add x (3 * v (faceL ! 0)));
          edgesR = mju_sub3 (ptr_add x (3 * v (faceR ! 1))) (ptr_add x (3 * v (faceR ! 0))) @
                   mju_sub3 (ptr_add x (3 * v (faceR ! 2))) (ptr_add x (3 * v (faceR ! 0)));
          normalL = mju_cross (vec_data edgesL) (ptr_add (vec_data edgesL) 3);
          normalR = mju_cross (vec_data edgesR) (ptr_add (vec_data edgesR) 3)
      in concat (map (\<lambda>i. map (\<lambda>j.
           (normalL ! i * normalR ! j + normalR ! i * normalL ! j) / (36 * 2 * volume * volume))
           [0..<3]) [0..<3]))"

subsection \<open>solid.cc: the plugin instance, its constructor and the factory\<close>

text \<open>A loop whose body may call \<open>mju_error\<close>: the first error ends it.\<close>

fun fold_err :: "('a \<Rightarrow> 's \<Rightarrow> mj_error + 's) \<Rightarrow> 'a list \<Rightarrow> 's \<Rightarrow> mj_error + 's" where
  "fold_err f [] s = Inr s"
| "fold_err f (x # xs) s = (case f x s of Inl e \<Rightarrow> Inl e | Inr s' \<Rightarrow> fold_err f xs s')"

text \<open>
  Lines 107-115: count the plugin bodies.  The member \<open>i0\<close> is not initialised before
  the loop; its indeterminate content is the argument \<open>i0_init\<close>.
\<close>

definition count_plugin_bodies :: "mjModel \<Rightarrow> int \<Rightarrow> nat \<Rightarrow> nat \<times> nat" where
  "count_plugin_bodies m instance i0_init =
     fold (\<lambda>i (nv, i0).
            if body_plugin m i = instance then (nv + 1, if nv = 0 then i else i0) else (nv, i0))
       [1..<nbody m] (0, i0_init)"

text \<open>Lines 117-128: find the flex of the first plugin body.\<close>

definition find_flex :: "mjModel \<Rightarrow> nat \<Rightarrow> nat \<Rightarrow> mj_error + (int \<times> nat)" where
  "find_flex m i0 nv =
     fold_err (\<lambda>i. fold_err (\<lambda>j (f0, nv).
         if flex_vertbodyid m (flex_vertadr m i + j) = i0
         then (if flex_dim m i \<noteq> 3
               then Inl (mju_error ''mujoco.elasticity.solid requires a 3D mesh'')
               else Inr (int i, flex_vertnum m i))
         else Inr (f0, nv))
       [0..<flex_vertnum m i])
     [0..<nflex m] (- 1, nv)"

text \<open>Lines 137-142: every vertex of the element belongs to the world or to the plugin.\<close>

definition check_element_bodies :: "mjModel \<Rightarrow> int \<Rightarrow> nat \<Rightarrow> nat ptr \<Rightarrow> mj_error + unit" where
  "check_element_bodies m instance f v =
     fold_err (\<lambda>i u.
         let bi = flex_vertbodyid m (flex_vertadr m f + v i)
         in if bi \<noteq> 0 \<and> body_plugin m bi \<noteq> instance
            then Inl (mju_error ''Body %d does not have plugin instance %d'')
            else Inr u)
       [0..<kNumVerts Stencil3D] ()"

text \<open>
  Lines 135-164: the body of the loop over the tetrahedra.  The loop writes into
  \<open>m->flex_stiffness\<close>; that array is the state of the loop.
\<close>

definition element_step ::
  "mjModel \<Rightarrow> int \<Rightarrow> mjtNum \<Rightarrow> mjtNum \<Rightarrow> nat \<Rightarrow> nat \<Rightarrow> mjtNum ptr \<Rightarrow> mj_error + mjtNum ptr" where
  "element_step m instance nu E f t stiffness =
     (let body_pos = ptr_add (flex_xvert0 m) (3 * flex_vertadr m f);
          elem = ptr_add (flex_elem m) (flex_elemdataadr m f);
          v = ptr_add elem ((flex_dim m f + 1) * t)
      in case check_element_bodies m instance f v of
           Inl e \<Rightarrow> Inl e
         | Inr _ \<Rightarrow>
             let volume = ComputeVolume body_pos v;
                 basis = map (\<lambda>e. ComputeBasis body_pos v (face ! (e2f ! e ! 0))
                                      (face ! (e2f ! e ! 1)) volume)
                           [0..<kNumEdges Stencil3D];
                 mu = E / (2 * (1 + nu)) * volume;
                 la = E * nu / ((1 + nu) * (1 - 2 * nu)) * volume
             in case MetricTensor Stencil3D (ptr_add stiffness (21 * flex_elemadr m f))
                       t mu la basis of
                  Inl e \<Rightarrow> Inl e
                | Inr metric' \<Rightarrow> Inr (ptr_store stiffness (21 * flex_elemadr m f) metric'))"

text \<open>
  The members of \<open>Solid\<close> (declared in solid.h).  \<open>f0\<close> starts at \<open>-1\<close>; where the code
  indexes an array with it the model reads \<open>nat f0\<close>, which agrees with the code
  whenever a flex was found.
\<close>

record Solid =
  f0 :: int
  i0 :: nat
  nv :: nat
  ne :: nat
  damping :: mjtNum
  prev :: "mjtNum list"
  elongation :: "mjtNum list"
  force :: "mjtNum list"

definition Solid_ctor ::
  "mjModel \<Rightarrow> int \<Rightarrow> mjtNum \<Rightarrow> mjtNum \<Rightarrow> mjtNum \<Rightarrow> nat \<Rightarrow> mj_error + (mjModel \<times> Solid)" where
  "Solid_ctor m instance nu E damp i0_init =
     (let (nv1, i0') = count_plugin_bodies m instance i0_init
      in case find_flex m i0' nv1 of
           Inl e \<Rightarrow> Inl e
         | Inr (f0', nv2) \<Rightarrow>
             let f = nat f0'
             in case fold_err (element_step m instance nu E f) [0..<flex_elemnum m f]
                       (flex_stiffness m) of
                  Inl e \<Rightarrow> Inl e
                | Inr stiffness \<Rightarrow>
                    let ne' = flex_edgenum m f
                    in Inr (m\<lparr>flex_stiffness := stiffness\<rparr>,
                            \<lparr>f0 = f0', i0 = i0', nv = nv2, ne = ne', damping = damp,
                             prev = [], elongation = replicate ne' 0,
                             force = replicate (3 * nv2) 0\<rparr>))"

text \<open>
  The factory.  \<open>CheckAttr\<close> (defined in a file that is not part of the two),
  \<open>mj_getPluginConfig\<close> and \<open>strtod\<close> are parameters.  The result is \<open>Inl\<close> when
  \<open>mju_error\<close> was called, \<open>Inr (m, None)\<close> for \<open>std::nullopt\<close> and
  \<open>Inr (m', Some s)\<close> for an instance; \<open>mju_warning\<close> only logs.
\<close>

definition Create ::
  "(string \<Rightarrow> mjModel \<Rightarrow> int \<Rightarrow> bool) \<Rightarrow> (mjModel \<Rightarrow> int \<Rightarrow> string \<Rightarrow> string) \<Rightarrow> (string \<Rightarrow> mjtNum)
     \<Rightarrow> mjModel \<Rightarrow> mjData \<Rightarrow> int \<Rightarrow> nat \<Rightarrow> mj_error + (mjModel \<times> Solid option)" where
  "Create CheckAttr mj_getPluginConfig strtod m d instance i0_init =
     (if CheckAttr ''face'' m instance \<and> CheckAttr ''edge'' m instance \<and>
         CheckAttr ''poisson'' m instance \<and> CheckAttr ''young'' m instance
      then
        let nu = strtod (mj_getPluginConfig m instance ''poisson'');
            E = strtod (mj_getPluginConfig m instance ''young'');
            damp = strtod (mj_getPluginConfig m instance ''damping'')
        in case Solid_ctor m instance nu E damp i0_init of
             Inl e \<Rightarrow> Inl e
           | Inr (m', s) \<Rightarrow> Inr (m', Some s)
      else Inr (m, None))"

subsection \<open>solid.cc: Compute\<close>

text \<open>\<open>memcpy(dst.data(), src, sizeof(mjtNum) * n)\<close> into a vector.\<close>

definition memcpy_vec :: "mjtNum list \<Rightarrow> mjtNum ptr \<Rightarrow> nat \<Rightarrow> mjtNum list" where
  "memcpy_vec dst src n = map src [0..<n] @ drop n dst"

definition Compute :: "applyFT \<Rightarrow> mjModel \<Rightarrow> mjData \<Rightarrow> Solid \<Rightarrow> mjData \<times> Solid" where
  "Compute mj_applyFT m d s =
     (let kD = damping s / opt_timestep m;
          f = nat (f0 s);
          deformed = ptr_add (flexedge_length d) (flex_edgeadr m f);
          ref = ptr_add (flexedge_length0 m) (flex_edgeadr m f);
          prev' = (if prev s = [] then memcpy_vec (replicate (ne s) 0) ref (ne s) else prev s);
          elongation' =
            fold (\<lambda>idx el.
                el[idx := deformed idx * deformed idx - ref idx * ref idx +
                          (deformed idx * deformed idx - prev' ! idx * prev' ! idx) * kD])
              [0..<ne s] (elongation s);
          xpos = ptr_add (flexvert_xpos d) (3 * flex_vertadr m f);
          qfrc = qfrc_passive d;
          force' = ComputeForce Stencil3D (force s) elongation' m f xpos;
          qfrc' = AddFlexForce mj_applyFT qfrc force' m d xpos f;
          prev'' = (if kD > 0 then memcpy_vec prev' deformed (ne s) else prev')
      in (d\<lparr>qfrc_passive := qfrc'\<rparr>,
          s\<lparr>prev := prev'', elongation := elongation', force := force'\<rparr>))"

subsection \<open>Notions used to state the properties\<close>

text \<open>
  The pairs \<open>(ed1, ed2)\<close> with \<open>ed1 \<le> ed2 < E\<close> in the order the two triangular loops
  visit them, and the position of a pair in that order (the index function of the
  packed layout).
\<close>

definition tri_pairs :: "nat \<Rightarrow> (nat \<times> nat) list" where
  "tri_pairs E = concat (map (\<lambda>a. map (Pair a) [a..<E]) [0..<E])"

definition tri_index :: "nat \<Rightarrow> nat \<Rightarrow> nat \<Rightarrow> nat" where
  "tri_index E i j = i * (2 * E - i + 1) div 2 + (j - i)"

text \<open>
  The packed position that cell \<open>x\<close> of the unpacked matrix is last written from, as
  the unpacking loops of ComputeForce compute it.
\<close>

definition unpack_src :: "nat \<Rightarrow> nat \<Rightarrow> nat option" where
  "unpack_src E x =
     fold (\<lambda>(n, (a, b)) r. if x = E * a + b \<or> x = E * b + a then Some n else r)
       (enumerate 0 (tri_pairs E)) None"

text \<open>
  A \<open>3 \<times> 3\<close> tensor is a list of nine numbers in row-major order.  Its trace, the trace
  of the product of two tensors, \<open>trace (B C)\<close>, and their double contraction
  \<open>trace (B C\<^sup>T)\<close>.
\<close>

definition trace3 :: "mjtNum list \<Rightarrow> mjtNum" where
  "trace3 B = B ! 0 + B ! 4 + B ! 8"

definition trace_prod :: "mjtNum list \<Rightarrow> mjtNum list \<Rightarrow> mjtNum" where
  "trace_prod B C = (\<Sum>a<3. \<Sum>b<3. B ! (3 * a + b) * C ! (3 * b + a))"

definition double_contraction :: "mjtNum list \<Rightarrow> mjtNum list \<Rightarrow> mjtNum" where
  "double_contraction B C = (\<Sum>a<3. \<Sum>b<3. B ! (3 * a + b) * C ! (3 * a + b))"

text \<open>A tensor is symmetric when its three pairs of off-diagonal cells agree.\<close>

definition symmetric3 :: "mjtNum list \<Rightarrow> bool" where
  "symmetric3 B = (B ! 1 = B ! 3 \<and> B ! 2 = B ! 6 \<and> B ! 5 = B ! 7)"

text \<open>
  The contract of the force assembler in the spec's words.  \<open>spec_gradient\<close> is the
  gradient of the squared length of edge \<open>j\<close> with respect to its endpoint \<open>s\<close>: the
  difference of the two endpoint positions, with opposite signs for the two
  endpoints.  \<open>spec_local_force\<close> is what vertex \<open>w\<close> of one element receives in
  component \<open>c\<close>: starting from zero, for every ordered pair of edges \<open>(i, j)\<close> and
  each endpoint \<open>s\<close> of edge \<open>j\<close> that is \<open>w\<close>, minus
  \<open>elongation[i] * gradient[j][s] * metric[i,j]\<close>.  \<open>spec_ComputeForce\<close> sums the
  contributions of all elements to cell \<open>k\<close> of the global per-vertex buffer;
  \<open>elem_vertices\<close>, \<open>elem_elongation\<close> and \<open>elem_metric\<close> are the vertices, the
  elongations and the (symmetric) metric tensor of element \<open>t\<close> as stored in the model.
\<close>

definition spec_gradient :: "stencil \<Rightarrow> mjtNum ptr \<Rightarrow> nat ptr \<Rightarrow> nat \<Rightarrow> nat \<Rightarrow> nat \<Rightarrow> mjtNum" where
  "spec_gradient T x v j s c =
     (if s = 0 then x (3 * v (edge T ! j ! 0) + c) - x (3 * v (edge T ! j ! 1) + c)
      else x (3 * v (edge T ! j ! 1) + c) - x (3 * v (edge T ! j ! 0) + c))"

definition spec_local_force ::
  "stencil \<Rightarrow> (nat \<Rightarrow> mjtNum) \<Rightarrow> (nat \<Rightarrow> nat \<Rightarrow> mjtNum) \<Rightarrow> mjtNum ptr \<Rightarrow> nat ptr \<Rightarrow> nat \<Rightarrow> nat \<Rightarrow> mjtNum" where
  "spec_local_force T el M x v w c =
     - (\<Sum>i<kNumEdges T. \<Sum>j<kNumEdges T. \<Sum>s<2.
          if edge T ! j ! s = w then el i * spec_gradient T x v j s c * M i j else 0)"

definition elem_vertices :: "mjModel \<Rightarrow> nat \<Rightarrow> nat \<Rightarrow> nat ptr" where
  "elem_vertices m flex t =
     ptr_add (ptr_add (flex_elem m) (flex_elemdataadr m flex)) ((flex_dim m flex + 1) * t)"

definition elem_elongation :: "stencil \<Rightarrow> mjtNum list \<Rightarrow> mjModel \<Rightarrow> nat \<Rightarrow> nat \<Rightarrow> nat \<Rightarrow> mjtNum" where
  "elem_elongation T elongationglob m flex t e =
     elongationglob ! (flex_elemedge m (flex_elemedgeadr m flex + (t * kNumEdges T + e)))"

definition elem_metric :: "stencil \<Rightarrow> mjModel \<Rightarrow> nat \<Rightarrow> nat \<Rightarrow> nat \<Rightarrow> nat \<Rightarrow> mjtNum" where
  "elem_metric T m flex t i j =
     flex_stiffness m (21 * flex_elemadr m flex +
       (21 * t + tri_index (kNumEdges T) (min i j) (max i j)))"

definition spec_ComputeForce ::
  "stencil \<Rightarrow> mjtNum list \<Rightarrow> mjModel \<Rightarrow> nat \<Rightarrow> mjtNum ptr \<Rightarrow> nat \<Rightarrow> mjtNum" where
  "spec_ComputeForce T elongationglob m flex xpos k =
     (\<Sum>t<flex_elemnum m flex. \<Sum>i<kNumVerts T. \<Sum>c<3.
        if 3 * elem_vertices m flex t i + c = k
        then spec_local_force T (elem_elongation T elongationglob m flex t)
               (elem_metric T m flex t) xpos (elem_vertices m flex t) i c
        else 0)"

text \<open>
  The simple-body path in closed form: the cells \<open>dofadr \<le> a < dofadr + dofnum\<close> of the
  generalized force receive the force components \<open>3 v + (a - dofadr)\<close>.
\<close>

definition add_direct :: "mjtNum list \<Rightarrow> nat \<Rightarrow> nat \<Rightarrow> nat \<Rightarrow> mjtNum ptr \<Rightarrow> mjtNum ptr" where
  "add_direct frc v dofadr dofnum qfrc =
     (\<lambda>a. if dofadr \<le> a \<and> a < dofadr + dofnum
          then qfrc a + frc ! (3 * v + (a - dofadr)) else qfrc a)"

text \<open>The routing of one vertex as the spec describes it.\<close>

definition spec_scatter_vertex ::
  "applyFT \<Rightarrow> mjtNum list \<Rightarrow> mjModel \<Rightarrow> mjData \<Rightarrow> mjtNum ptr \<Rightarrow> nat \<Rightarrow> nat \<Rightarrow> mjtNum ptr \<Rightarrow> mjtNum ptr" where
  "spec_scatter_vertex mj_applyFT frc m d xpos flex v qfrc =
     (let bid = flex_vertbodyid m (flex_vertadr m flex + v)
      in if body_simple m bid = 2
         then add_direct frc v (body_dofadr m bid) (body_dofnum m bid) qfrc
         else mj_applyFT m d (\<lambda>i. frc ! (3 * v + i)) None (\<lambda>i. xpos (3 * v + i)) bid qfrc)"

text \<open>
  The elongation of one edge in the spec's words, from the deformed length \<open>dl\<close>, the
  reference length \<open>rl\<close>, the previous length \<open>pl\<close> and the damping rate \<open>kD\<close>.
\<close>

definition spec_elongation :: "mjtNum \<Rightarrow> mjtNum \<Rightarrow> mjtNum \<Rightarrow> mjtNum \<Rightarrow> mjtNum" where
  "spec_elongation dl rl pl kD = (dl\<^sup>2 - rl\<^sup>2) + kD * (dl\<^sup>2 - pl\<^sup>2)"

text \<open>The edge lengths of the flex of an instance, as Compute reads them.\<close>

definition deformed_length :: "mjModel \<Rightarrow> mjData \<Rightarrow> Solid \<Rightarrow> nat \<Rightarrow> mjtNum" where
  "deformed_length m d s i = flexedge_length d (flex_edgeadr m (nat (f0 s)) + i)"

definition reference_length :: "mjModel \<Rightarrow> Solid \<Rightarrow> nat \<Rightarrow> mjtNum" where
  "reference_length m s i = flexedge_length0 m (flex_edgeadr m (nat (f0 s)) + i)"

text \<open>
  The previous-length buffer after the first-call initialisation: the reference
  lengths if the buffer was still empty, the buffer itself otherwise.
\<close>

definition prev_initialised :: "mjModel \<Rightarrow> Solid \<Rightarrow> mjtNum list" where
  "prev_initialised m s =
     (if prev s = [] then map (reference_length m s) [0..<ne s] else prev s)"

text \<open>
  The checks of the constructor that can end in \<open>mju_error\<close>, without the numerical
  work: the flex of the first plugin body must be three-dimensional and every vertex
  of every element must belong to the world body or to a body of the instance.
\<close>

definition mesh_checks :: "mjModel \<Rightarrow> int \<Rightarrow> nat \<Rightarrow> mj_error + unit" where
  "mesh_checks m instance i0_init =
     (let (nv1, i0') = count_plugin_bodies m instance i0_init
      in case find_flex m i0' nv1 of
           Inl e \<Rightarrow> Inl e
         | Inr (f0', nv2) \<Rightarrow>
             fold_err (\<lambda>t u. check_element_bodies m instance (nat f0')
                                (elem_vertices m (nat f0') t))
               [0..<flex_elemnum m (nat f0')] ())"

subsection \<open>Example inputs\<close>

definition zero_mem :: "mjtNum ptr" where
  "zero_mem = (\<lambda>_. 0)"

definition basis_asym :: "mjtNum list list" where
  "basis_asym = [[0, 1, 0, 0, 0, 0, 0, 0, 0],
                 [0, 0, 0, 0, 0, 0, 0, 0, 0],
                 [0, 0, 0, 0, 0, 0, 0, 0, 0]]"

definition basis_diag :: "mjtNum list list" where
  "basis_diag = [[1, 0, 0, 0, 2, 0, 0, 0, 3],
                 [1, 0, 0, 0, 1, 0, 0, 0, 1],
                 [0, 1, 0, 1, 0, 0, 0, 0, 0]]"

text \<open>
  A flex of one tetrahedron (rest volume \<open>1 / 6\<close>) with four free vertices, one body
  with three sliding degrees of freedom per vertex, all of plugin instance \<open>0\<close>.
\<close>

definition tet_model :: mjModel where
  "tet_model =
     \<lparr>nbody = 5, nflex = 1, opt_timestep = 1 / 2,
      body_plugin = (\<lambda>b. if b = 0 then - 1 else 0),
      body_simple = (\<lambda>b. if b = 0 then 0 else 2),
      body_dofnum = (\<lambda>b. if b = 0 then 0 else 3),
      body_dofadr = (\<lambda>b. 3 * (b - 1)),
      flex_dim = (\<lambda>_. 3),
      flex_vertadr = (\<lambda>_. 0),
      flex_vertnum = (\<lambda>_. 4),
      flex_vertbodyid = (\<lambda>v. v + 1),
      flex_edgeadr = (\<lambda>_. 0),
      flex_edgenum = (\<lambda>_. 6),
      flex_elemadr = (\<lambda>_. 0),
      flex_elemnum = (\<lambda>_. 1),
      flex_elemdataadr = (\<lambda>_. 0),
      flex_elemedgeadr = (\<lambda>_. 0),
      flex_elem = (\<lambda>i. i),
      flex_elemedge = (\<lambda>i. i),
      flex_xvert0 = vec_data [0, 0, 0, 0, 1, 0, 1, 0, 0, 0, 0, 1],
      flexedge_length0 = vec_data [1, 1, 1, 1, 1, 1],
      flex_stiffness = (\<lambda>_. 1)\<rparr>"

definition tet_xpos :: "mjtNum ptr" where
  "tet_xpos = vec_data [0, 0, 0, 0, 1, 0, 1, 0, 0, 0, 0, 1]"

definition tet_elongation :: "mjtNum list" where
  "tet_elongation = [1, 0, 0, 0, 0, 0]"

definition ex_applyFT :: applyFT where
  "ex_applyFT = (\<lambda>m d f t p b q. q(100 + b := f 0))"

definition ex_data :: mjData where
  "ex_data = \<lparr>flexedge_length = vec_data [2, 1, 1, 1, 1, 1],
              flexvert_xpos = vec_data [0, 0, 0, 0, 1, 0, 1, 0, 0, 0, 0, 1],
              qfrc_passive = zero_mem\<rparr>"

text \<open>One vertex on a simple body with a single degree of freedom.\<close>

definition ex_slider_model :: mjModel where
  "ex_slider_model =
     tet_model\<lparr>flex_vertnum := (\<lambda>_. 1), body_dofnum := (\<lambda>_. 1), body_dofadr := (\<lambda>_. 0),
               flex_elemnum := (\<lambda>_. 0)\<rparr>"

definition ex_solid :: Solid where
  "ex_solid = \<lparr>f0 = 0, i0 = 1, nv = 4, ne = 6, damping = 0, prev = [],
               elongation = replicate 6 0, force = replicate 12 0\<rparr>"

definition ex_solid_damped :: Solid where
  "ex_solid_damped = ex_solid\<lparr>damping := 1, prev := [1, 1, 1, 1, 1, 3]\<rparr>"

definition ex_CheckAttr :: "string \<Rightarrow> mjModel \<Rightarrow> int \<Rightarrow> bool" where
  "ex_CheckAttr = (\<lambda>name m instance. True)"

definition ex_config :: "mjModel \<Rightarrow> int \<Rightarrow> string \<Rightarrow> string" where
  "ex_config = (\<lambda>m instance name.
     if name = ''young'' then ''1000''
     else if name = ''poisson'' then ''0.3''
     else if name = ''damping'' then ''-1''
     else '''')"

definition ex_strtod :: "string \<Rightarrow> mjtNum" where
  "ex_strtod = (\<lambda>txt.
     if txt = ''1000'' then 1000
     else if txt = ''0.3'' then 3 / 10
     else if txt = ''-1'' then - 1
     else 0)"

text \<open>The same flex declared two-dimensional.\<close>

definition ex_flat_model :: mjModel where
  "ex_flat_model = tet_model\<lparr>flex_dim := (\<lambda>_. 2)\<rparr>"

section \<open>Properties\<close>

subsection \<open>The packed count of MetricTensor\<close>

lemma fold_nested:
  "fold (\<lambda>a. fold (F a) (h a)) as s =
   fold (\<lambda>(a, b). F a b) (concat (map (\<lambda>a. map (Pair a) (h a)) as)) s"
proof (induction as arbitrary: s)
  case Nil
  show ?case by simp
next
  case (Cons a as)
  have "fold (\<lambda>(a, b). F a b) (map (Pair a) (h a)) = fold (F a) (h a)"
    by (simp add: fold_map comp_def)
  with Cons show ?case by simp
qed

lemma fold_counter_write:
  "fold (\<lambda>p (mt, id). (mt(base + id := c p), Suc id)) ps (mt0, id0) =
   (\<lambda>x. if base + id0 \<le> x \<and> x < base + id0 + length ps
         then c (ps ! (x - (base + id0))) else mt0 x, id0 + length ps)"
proof (induction ps arbitrary: mt0 id0)
  case Nil
  show ?case by (auto simp: fun_eq_iff)
next
  case (Cons p ps)
  let ?F = "\<lambda>p (mt, id). (mt(base + id := c p), Suc id)"
  have "fold ?F (p # ps) (mt0, id0) = fold ?F ps (mt0(base + id0 := c p), Suc id0)"
    by simp
  also have "\<dots> = (\<lambda>x. if base + Suc id0 \<le> x \<and> x < base + Suc id0 + length ps
         then c (ps ! (x - (base + Suc id0))) else (mt0(base + id0 := c p)) x,
         Suc id0 + length ps)"
    by (rule Cons.IH)
  also have "\<dots> = (\<lambda>x. if base + id0 \<le> x \<and> x < base + id0 + length (p # ps)
         then c ((p # ps) ! (x - (base + id0))) else mt0 x, id0 + length (p # ps))"
    by (auto simp: fun_eq_iff nth_Cons')
  finally show ?case .
qed

lemma tri_table_3:
  "length (tri_pairs 3) = 6 \<and> distinct (tri_pairs 3) \<and>
   (\<forall>p \<in> set (tri_pairs 3). fst p \<le> snd p \<and> snd p < 3) \<and>
   (\<forall>i \<in> set [0..<3]. \<forall>j \<in> set [i..<3].
      tri_pairs 3 ! tri_index 3 i j = (i, j) \<and> tri_index 3 i j < 6)"
  by code_simp

lemma tri_table_6:
  "length (tri_pairs 6) = 21 \<and> distinct (tri_pairs 6) \<and>
   (\<forall>p \<in> set (tri_pairs 6). fst p \<le> snd p \<and> snd p < 6) \<and>
   (\<forall>i \<in> set [0..<6]. \<forall>j \<in> set [i..<6].
      tri_pairs 6 ! tri_index 6 i j = (i, j) \<and> tri_index 6 i j < 21)"
  by code_simp

lemma length_tri_pairs:
  "length (tri_pairs (kNumEdges T)) = kNumEdges T * (kNumEdges T + 1) div 2"
  using tri_table_3 tri_table_6 by (cases T) simp_all

lemma MetricTensor_copy_eq:
  "MetricTensor_copy T metric idx k =
   (\<lambda>x. if 21 * idx \<le> x \<and> x < 21 * idx + length (tri_pairs (kNumEdges T))
         then k ! (kNumEdges T * fst (tri_pairs (kNumEdges T) ! (x - 21 * idx))
                   + snd (tri_pairs (kNumEdges T) ! (x - 21 * idx)))
         else metric x,
    length (tri_pairs (kNumEdges T)))"
proof -
  have step:
    "(\<lambda>(ed1, ed2) (mt, id). (mt(21 * idx + id := k ! (kNumEdges T * ed1 + ed2)), id + 1)) =
     (\<lambda>p (mt, id). (mt(21 * idx + id := k ! (kNumEdges T * fst p + snd p)), Suc id))"
    by (auto simp: fun_eq_iff)
  show ?thesis
    unfolding MetricTensor_copy_def fold_nested tri_pairs_def [symmetric] step
    by (simp add: fold_counter_write cong: if_cong)
qed

text \<open>
  C9.  On both stencils the copy loop of MetricTensor performs exactly
  \<open>E (E + 1) / 2\<close> writes, so the test \<open>id != E (E + 1) / 2\<close> never succeeds and
  MetricTensor never reaches \<open>mju_error\<close>: it always returns the updated buffer.
\<close>

theorem MetricTensor_count_ok:
  "snd (MetricTensor_copy T metric idx k) = kNumEdges T * (kNumEdges T + 1) div 2 \<and>
   (\<exists>metric'. MetricTensor T metric idx mu la basis = Inr metric')"
  by (simp add: MetricTensor_def MetricTensor_copy_eq length_tri_pairs Let_def)

subsection \<open>Slot-wise loops and the entries of the metric tensor\<close>


lemma sum_list_upt0: "(\<Sum>e\<leftarrow>[0..<n]. f e) = (\<Sum>e<n. f e)"
  by (simp add: interv_sum_list_conv_sum_set_nat atLeast0LessThan)

lemma fold_add_nth:
  fixes D :: "'e \<Rightarrow> nat \<Rightarrow> mjtNum"
  assumes step: "\<And>e f. e \<in> set es \<Longrightarrow> length f = n \<Longrightarrow>
      length (F e f) = n \<and> (\<forall>k<n. F e f ! k = f ! k + D e k)"
  shows "length f = n \<Longrightarrow>
      length (fold F es f) = n \<and> (\<forall>k<n. fold F es f ! k = f ! k + (\<Sum>e\<leftarrow>es. D e k))"
  using step
proof (induction es arbitrary: f)
  case Nil
  then show ?case by simp
next
  case (Cons e es)
  have s: "length (F e f) = n \<and> (\<forall>k<n. F e f ! k = f ! k + D e k)"
    using Cons.prems by simp
  have "length (fold F es (F e f)) = n \<and>
      (\<forall>k<n. fold F es (F e f) ! k = F e f ! k + (\<Sum>e\<leftarrow>es. D e k))"
    using Cons.IH [of "F e f"] s Cons.prems(2) by simp
  with s show ?case by (simp add: add.assoc)
qed

lemma slot_eq:
  fixes E :: nat
  assumes "j < E" "b < E"
  shows "(E * i + j = E * a + b) = (i = a \<and> j = b)"
proof
  assume h: "E * i + j = E * a + b"
  have "(E * i + j) div E = i" "(E * i + j) mod E = j" using assms by simp_all
  moreover have "(E * a + b) div E = a" "(E * a + b) mod E = b" using assms by simp_all
  ultimately show "i = a \<and> j = b" using h by simp
qed simp

lemma sum_if_const:
  fixes g :: "'a \<Rightarrow> mjtNum"
  shows "(\<Sum>i\<in>S. if P then g i else 0) = (if P then \<Sum>i\<in>S. g i else 0)"
  by simp

lemma trE_nth:
  assumes "e < kNumEdges T"
  shows "MetricTensor_trE T basis ! e = trace3 (basis ! e)"
proof -
  let ?E = "kNumEdges T"
  let ?D = "\<lambda>e k. (\<Sum>i\<leftarrow>[0..<3]. if k = e then basis ! e ! (4 * i) else 0)"
  have inner: "length (fold (\<lambda>i trE. trE[e := trE ! e + basis ! e ! (4 * i)]) [0..<3] f) = ?E \<and>
      (\<forall>k<?E. fold (\<lambda>i trE. trE[e := trE ! e + basis ! e ! (4 * i)]) [0..<3] f ! k = f ! k + ?D e k)"
    if "length f = ?E" for e f
    by (rule fold_add_nth [OF _ that]) (simp add: nth_list_update)
  have "length (MetricTensor_trE T basis) = ?E \<and>
      (\<forall>k<?E. MetricTensor_trE T basis ! k = replicate ?E 0 ! k + (\<Sum>e\<leftarrow>[0..<?E]. ?D e k))"
    unfolding MetricTensor_trE_def
    by (rule fold_add_nth) (use inner in simp_all)
  then have "MetricTensor_trE T basis ! e = (\<Sum>e'<?E. \<Sum>i<3. if e = e' then basis ! e' ! (4 * i) else 0)"
    using assms by (simp add: sum_list_upt0)
  also have "\<dots> = (\<Sum>i<3. basis ! e ! (4 * i))"
    using assms by (simp add: sum_if_const sum.delta')
  also have "\<dots> = trace3 (basis ! e)"
    by (simp add: trace3_def eval_nat_numeral)
  finally show ?thesis .
qed

lemma fold_slotwise:
  assumes step: "\<And>e f. e \<in> set es \<Longrightarrow> length f = n \<Longrightarrow>
      length (F e f) = n \<and> (\<forall>k<n. F e f ! k = U e k (f ! k))"
  shows "length f = n \<Longrightarrow>
      length (fold F es f) = n \<and> (\<forall>k<n. fold F es f ! k = fold (\<lambda>e. U e k) es (f ! k))"
  using step
proof (induction es arbitrary: f)
  case Nil
  then show ?case by simp
next
  case (Cons e es)
  have s: "length (F e f) = n \<and> (\<forall>k<n. F e f ! k = U e k (f ! k))"
    using Cons.prems by simp
  have "length (fold F es (F e f)) = n \<and>
      (\<forall>k<n. fold F es (F e f) ! k = fold (\<lambda>e. U e k) es (F e f ! k))"
    using Cons.IH [of "F e f"] s Cons.prems(2) by simp
  with s show ?case by simp
qed

lemma fold_if_eq:
  "fold (\<lambda>b v. if P \<and> j = b then c b else v) bs v = (if P \<and> j \<in> set bs then c j else v)"
  by (induction bs arbitrary: v) auto

lemma fold_assign_slot:
  fixes E :: nat
  assumes "i < E" "j < E"
  shows "fold (\<lambda>a. fold (\<lambda>b v. if E * i + j = E * a + b then c a b else v) [0..<E]) [0..<E] v0
         = c i j"
proof -
  have inner: "fold (\<lambda>b v. if E * i + j = E * a + b then c a b else v) [0..<E] v =
      (if i = a then c a j else v)" for a v
  proof -
    have "fold (\<lambda>b v. if E * i + j = E * a + b then c a b else v) [0..<E] v =
        fold (\<lambda>b v. if i = a \<and> j = b then c a b else v) [0..<E] v"
      by (rule fold_cong) (use assms in \<open>simp_all add: slot_eq\<close>)
    then show ?thesis using assms by (simp add: fold_if_eq)
  qed
  then have inner': "(\<lambda>a. fold (\<lambda>b v. if E * i + j = E * a + b then c a b else v) [0..<E]) =
      (\<lambda>a v. if True \<and> i = a then c a j else v)"
    by (simp add: fun_eq_iff)
  show ?thesis
    unfolding inner' fold_if_eq using assms by simp
qed

lemma sum_delta2:
  fixes c :: "nat \<Rightarrow> nat \<Rightarrow> mjtNum"
  assumes "i < n" "j < m"
  shows "(\<Sum>a<n. \<Sum>b<m. if i = a \<and> j = b then c a b else 0) = c i j"
proof -
  have "(\<Sum>b<m. if i = a \<and> j = b then c a b else 0) = (if i = a then c a j else 0)" for a
    using assms(2) by (cases "i = a") (simp_all add: sum.delta')
  then show ?thesis using assms(1) by (simp add: sum.delta')
qed

lemma sum_slot:
  fixes c :: "nat \<Rightarrow> nat \<Rightarrow> mjtNum" and E :: nat
  assumes "i < E" "j < E"
  shows "(\<Sum>a<E. \<Sum>b<E. if E * i + j = E * a + b then c a b else 0) = c i j"
proof -
  have "(\<Sum>a<E. \<Sum>b<E. if E * i + j = E * a + b then c a b else 0) =
      (\<Sum>a<E. \<Sum>b<E. if i = a \<and> j = b then c a b else 0)"
    by (intro sum.cong refl) (use assms in \<open>simp add: slot_eq\<close>)
  then show ?thesis using assms by (simp add: sum_delta2)
qed

lemma slot_less:
  fixes E :: nat
  assumes "i < E" "j < E"
  shows "E * i + j < E * E"
proof -
  have "E * i + j < E * i + E" using assms by simp
  also have "\<dots> = E * Suc i" by simp
  also have "\<dots> \<le> E * E" using assms by (intro mult_le_mono2) simp
  finally show ?thesis .
qed

lemma trEE_nth:
  assumes "i < kNumEdges T" "j < kNumEdges T"
  shows "MetricTensor_trEE T basis ! (kNumEdges T * i + j) = trace_prod (basis ! i) (basis ! j)"
proof -
  let ?E = "kNumEdges T"
  let ?n = "?E * ?E"
  let ?c = "\<lambda>ed1 ed2 a b. basis ! ed1 ! (3 * a + b) * basis ! ed2 ! (3 * b + a)"
  let ?step = "\<lambda>ed1 ed2 a b trEE. trEE[?E * ed1 + ed2 := trEE ! (?E * ed1 + ed2) + ?c ed1 ed2 a b]"
  let ?D4 = "\<lambda>ed1 ed2 a b k. if k = ?E * ed1 + ed2 then ?c ed1 ed2 a b else 0"
  let ?D3 = "\<lambda>ed1 ed2 a k. \<Sum>b\<leftarrow>[0..<3]. ?D4 ed1 ed2 a b k"
  let ?D2 = "\<lambda>ed1 ed2 k. \<Sum>a\<leftarrow>[0..<3]. ?D3 ed1 ed2 a k"
  let ?D1 = "\<lambda>ed1 k. \<Sum>ed2\<leftarrow>[0..<?E]. ?D2 ed1 ed2 k"
  have l4: "length (fold (?step ed1 ed2 a) [0..<3] f) = ?n \<and>
      (\<forall>k<?n. fold (?step ed1 ed2 a) [0..<3] f ! k = f ! k + ?D3 ed1 ed2 a k)"
    if "length f = ?n" for ed1 ed2 a f
    by (rule fold_add_nth [OF _ that]) (simp add: nth_list_update)
  have l3: "length (fold (\<lambda>a. fold (?step ed1 ed2 a) [0..<3]) [0..<3] f) = ?n \<and>
      (\<forall>k<?n. fold (\<lambda>a. fold (?step ed1 ed2 a) [0..<3]) [0..<3] f ! k = f ! k + ?D2 ed1 ed2 k)"
    if "length f = ?n" for ed1 ed2 f
    by (rule fold_add_nth [OF _ that]) (rule l4)
  have l2: "length (fold (\<lambda>ed2. fold (\<lambda>a. fold (?step ed1 ed2 a) [0..<3]) [0..<3]) [0..<?E] f) = ?n \<and>
      (\<forall>k<?n. fold (\<lambda>ed2. fold (\<lambda>a. fold (?step ed1 ed2 a) [0..<3]) [0..<3]) [0..<?E] f ! k
          = f ! k + ?D1 ed1 k)"
    if "length f = ?n" for ed1 f
    by (rule fold_add_nth [OF _ that]) (rule l3)
  have l1: "length (MetricTensor_trEE T basis) = ?n \<and>
      (\<forall>k<?n. MetricTensor_trEE T basis ! k = replicate ?n 0 ! k + (\<Sum>ed1\<leftarrow>[0..<?E]. ?D1 ed1 k))"
    unfolding MetricTensor_trEE_def
    by (rule fold_add_nth) (use l2 in simp_all)
  have "MetricTensor_trEE T basis ! (?E * i + j) =
      (\<Sum>ed1<?E. \<Sum>ed2<?E. if ?E * i + j = ?E * ed1 + ed2
          then (\<Sum>a<3. \<Sum>b<3. ?c ed1 ed2 a b) else 0)"
    using l1 slot_less [OF assms] by (simp add: sum_list_upt0 sum_if_const)
  also have "\<dots> = (\<Sum>a<3. \<Sum>b<3. ?c i j a b)"
    by (rule sum_slot [OF assms])
  finally show ?thesis by (simp add: trace_prod_def)
qed

lemma k_nth:
  assumes "i < kNumEdges T" "j < kNumEdges T"
  shows "MetricTensor_k T mu la trE trEE ! (kNumEdges T * i + j) =
         mu * trEE ! (kNumEdges T * i + j) + la * trE ! j * trE ! i"
proof -
  let ?E = "kNumEdges T"
  let ?n = "?E * ?E"
  let ?c = "\<lambda>ed1 ed2. mu * trEE ! (?E * ed1 + ed2) + la * trE ! ed2 * trE ! ed1"
  let ?step = "\<lambda>ed1 ed2 k. k[?E * ed1 + ed2 := ?c ed1 ed2]"
  let ?U2 = "\<lambda>ed1 ed2 k v. if k = ?E * ed1 + ed2 then ?c ed1 ed2 else v"
  let ?U1 = "\<lambda>ed1 k. fold (\<lambda>ed2. ?U2 ed1 ed2 k) [0..<?E]"
  have l2: "length (fold (?step ed1) [0..<?E] f) = ?n \<and>
      (\<forall>k<?n. fold (?step ed1) [0..<?E] f ! k = ?U1 ed1 k (f ! k))"
    if "length f = ?n" for ed1 f
    by (rule fold_slotwise [OF _ that]) (simp add: nth_list_update)
  have l1: "length (MetricTensor_k T mu la trE trEE) = ?n \<and>
      (\<forall>k<?n. MetricTensor_k T mu la trE trEE ! k =
          fold (\<lambda>ed1. ?U1 ed1 k) [0..<?E] (replicate ?n 0 ! k))"
    unfolding MetricTensor_k_def
    by (rule fold_slotwise) (use l2 in simp_all)
  have "MetricTensor_k T mu la trE trEE ! (?E * i + j) =
      fold (\<lambda>ed1. ?U1 ed1 (?E * i + j)) [0..<?E] 0"
    using l1 slot_less [OF assms] by simp
  also have "\<dots> = ?c i j"
    by (rule fold_assign_slot [OF assms])
  finally show ?thesis .
qed

lemma tri_pairs_nth:
  assumes "i \<le> j" "j < kNumEdges T"
  shows "tri_index (kNumEdges T) i j < length (tri_pairs (kNumEdges T)) \<and>
         tri_pairs (kNumEdges T) ! tri_index (kNumEdges T) i j = (i, j)"
proof (cases T)
  case Stencil2D
  then have "i \<in> set [0..<3]" "j \<in> set [i..<3]" using assms by simp_all
  then show ?thesis using tri_table_3 Stencil2D by simp
next
  case Stencil3D
  then have "i \<in> set [0..<6]" "j \<in> set [i..<6]" using assms by simp_all
  then show ?thesis using tri_table_6 Stencil3D by simp
qed

lemma trace_prod_commute: "trace_prod B C = trace_prod C B"
proof -
  have "trace_prod B C = (\<Sum>b<3. \<Sum>a<3. B ! (3 * a + b) * C ! (3 * b + a))"
    unfolding trace_prod_def by (rule sum.swap)
  then show ?thesis by (simp add: trace_prod_def mult.commute)
qed

lemma MetricTensor_entry:
  assumes "i \<le> j" "j < kNumEdges T"
  shows "\<exists>metric'. MetricTensor T metric idx mu la basis = Inr metric' \<and>
     metric' (21 * idx + tri_index (kNumEdges T) i j) =
       mu * trace_prod (basis ! i) (basis ! j) + la * trace3 (basis ! j) * trace3 (basis ! i)"
proof -
  have i: "i < kNumEdges T" using assms by simp
  show ?thesis
    using tri_pairs_nth [OF assms]
    by (simp add: MetricTensor_def MetricTensor_copy_eq length_tri_pairs Let_def
        k_nth [OF i assms(2)] trEE_nth [OF i assms(2)] trE_nth [OF i] trE_nth [OF assms(2)])
qed

lemma MetricTensor_frame:
  assumes "x < 21 * idx \<or> 21 * idx + kNumEdges T * (kNumEdges T + 1) div 2 \<le> x"
  shows "\<exists>metric'. MetricTensor T metric idx mu la basis = Inr metric' \<and> metric' x = metric x"
  using assms
  by (auto simp: MetricTensor_def MetricTensor_copy_eq length_tri_pairs Let_def)

lemma fold_counter_enum:
  "fold (\<lambda>p (mt, id). (G p id mt, Suc id)) ps (mt0, id0) =
   (fold (\<lambda>(n, p). G p n) (enumerate id0 ps) mt0, id0 + length ps)"
  by (induction ps arbitrary: mt0 id0) simp_all

lemma fold_if_option:
  "fold (\<lambda>e v. if C e then kk (h e) else v) es (case_option d kk r) =
   case_option d kk (fold (\<lambda>e r. if C e then Some (h e) else r) es r)"
proof (induction es arbitrary: r)
  case Nil
  show ?case by simp
next
  case (Cons e es)
  show ?case
    using Cons.IH [of "Some (h e)"] Cons.IH [of r] by simp
qed

lemma nth_list_update_if:
  "k < length f \<Longrightarrow> f[s := c] ! k = (if k = s then c else f ! k)"
  by (cases "s < length f") (auto simp: nth_list_update)

lemma unpack_src_3:
  "\<forall>i \<in> set [0..<3]. \<forall>j \<in> set [0..<3]. unpack_src 3 (3 * i + j) = Some (tri_index 3 (min i j) (max i j))"
  by code_simp

lemma unpack_src_6:
  "\<forall>i \<in> set [0..<6]. \<forall>j \<in> set [0..<6]. unpack_src 6 (6 * i + j) = Some (tri_index 6 (min i j) (max i j))"
  by code_simp

lemma unpack_src_eq:
  assumes "i < kNumEdges T" "j < kNumEdges T"
  shows "unpack_src (kNumEdges T) (kNumEdges T * i + j) =
         Some (tri_index (kNumEdges T) (min i j) (max i j))"
proof (cases T)
  case Stencil2D
  then have "i \<in> set [0..<3]" "j \<in> set [0..<3]" using assms by simp_all
  then show ?thesis using unpack_src_3 Stencil2D by simp
next
  case Stencil3D
  then have "i \<in> set [0..<6]" "j \<in> set [0..<6]" using assms by simp_all
  then show ?thesis using unpack_src_6 Stencil3D by simp
qed

lemma unpack_metric_eq:
  "unpack_metric T k t =
   (fold (\<lambda>(n, (a, b)) mt. (mt[kNumEdges T * a + b := k (21 * t + n)])
                               [kNumEdges T * b + a := k (21 * t + n)])
      (enumerate 0 (tri_pairs (kNumEdges T))) (replicate (kNumEdges T * kNumEdges T) 0),
    length (tri_pairs (kNumEdges T)))"
proof -
  have step:
    "(\<lambda>(ed1, ed2) (metric, id).
        ((metric[kNumEdges T * ed1 + ed2 := k (21 * t + id)])
                [kNumEdges T * ed2 + ed1 := k (21 * t + id)], id + 1)) =
     (\<lambda>p (mt, id). ((\<lambda>(a, b) n mt. (mt[kNumEdges T * a + b := k (21 * t + n)])
                               [kNumEdges T * b + a := k (21 * t + n)]) p id mt, Suc id))"
    by (auto simp: fun_eq_iff)
  show ?thesis
    unfolding unpack_metric_def fold_nested tri_pairs_def [symmetric] step fold_counter_enum
    by (simp add: case_prod_unfold)
qed

lemma unpack_metric_nth:
  assumes "i < kNumEdges T" "j < kNumEdges T"
  shows "fst (unpack_metric T k t) ! (kNumEdges T * i + j) =
         k (21 * t + tri_index (kNumEdges T) (min i j) (max i j))"
proof -
  let ?E = "kNumEdges T"
  let ?n = "?E * ?E"
  let ?es = "enumerate 0 (tri_pairs ?E)"
  let ?F = "\<lambda>(n, (a, b)) mt. (mt[?E * a + b := k (21 * t + n)])[?E * b + a := k (21 * t + n)]"
  let ?C = "\<lambda>x (e :: nat \<times> nat \<times> nat). x = ?E * fst (snd e) + snd (snd e) \<or> x = ?E * snd (snd e) + fst (snd e)"
  let ?U = "\<lambda>e x v. if ?C x e then k (21 * t + fst e) else v"
  have "length (fold ?F ?es (replicate ?n 0)) = ?n \<and>
      (\<forall>x<?n. fold ?F ?es (replicate ?n 0) ! x = fold (\<lambda>e. ?U e x) ?es (replicate ?n 0 ! x))"
    by (rule fold_slotwise) (auto simp: nth_list_update_if)
  then have "fst (unpack_metric T k t) ! (?E * i + j) =
      fold (\<lambda>e v. if ?C (?E * i + j) e then k (21 * t + fst e) else v) ?es
        (case_option 0 (\<lambda>n. k (21 * t + n)) None)"
    using slot_less [OF assms] by (simp add: unpack_metric_eq)
  also have "\<dots> = case_option 0 (\<lambda>n. k (21 * t + n))
      (fold (\<lambda>e r. if ?C (?E * i + j) e then Some (fst e) else r) ?es None)"
    by (rule fold_if_option)
  also have "fold (\<lambda>e r. if ?C (?E * i + j) e then Some (fst e) else r) ?es None =
      unpack_src ?E (?E * i + j)"
    by (simp add: unpack_src_def case_prod_unfold)
  finally show ?thesis by (simp add: unpack_src_eq [OF assms])
qed

lemma sum_lessThan_3: "(\<Sum>a<(3::nat). f a) = f 0 + f 1 + (f 2 :: mjtNum)"
  by (simp add: eval_nat_numeral)

lemma MetricTensor_Inr_unique:
  obtains metric' where "MetricTensor T metric idx mu la basis = Inr metric'"
  by (simp add: MetricTensor_def MetricTensor_copy_eq length_tri_pairs Let_def)

text \<open>
  C4.  For all material parameters and all basis tensors, the packed metric tensor
  that MetricTensor writes for element \<open>idx\<close>, unpacked to its full \<open>E \<times> E\<close> form by
  the loops of ComputeForce, is symmetric: \<open>M[i][j] = M[j][i]\<close> for all \<open>i, j < E\<close>;
  moreover every cell \<open>M[i][j]\<close> is the value \<open>mu trEE[i,j] + la trE[i] trE[j]\<close> of the
  full matrix, so nothing is lost by storing the upper triangle only.
\<close>

theorem unpacked_metric_symmetric:
  assumes "i < kNumEdges T" "j < kNumEdges T"
  shows "\<exists>metric'. MetricTensor T metric idx mu la basis = Inr metric' \<and>
     fst (unpack_metric T metric' idx) ! (kNumEdges T * i + j) =
     fst (unpack_metric T metric' idx) ! (kNumEdges T * j + i) \<and>
     fst (unpack_metric T metric' idx) ! (kNumEdges T * i + j) =
       mu * trace_prod (basis ! i) (basis ! j) + la * trace3 (basis ! i) * trace3 (basis ! j)"
proof -
  obtain metric' where m: "MetricTensor T metric idx mu la basis = Inr metric'"
    by (rule MetricTensor_Inr_unique)
  have le: "min i j \<le> max i j" "max i j < kNumEdges T" using assms by simp_all
  have sym: "fst (unpack_metric T metric' idx) ! (kNumEdges T * i + j) =
      fst (unpack_metric T metric' idx) ! (kNumEdges T * j + i)"
    by (simp add: unpack_metric_nth assms min.commute max.commute)
  have "metric' (21 * idx + tri_index (kNumEdges T) (min i j) (max i j)) =
      mu * trace_prod (basis ! min i j) (basis ! max i j) +
      la * trace3 (basis ! max i j) * trace3 (basis ! min i j)"
    using MetricTensor_entry [OF le, of metric idx mu la basis] m by simp
  also have "\<dots> = mu * trace_prod (basis ! i) (basis ! j) + la * trace3 (basis ! i) * trace3 (basis ! j)"
    by (cases "i \<le> j") (simp_all add: min_def max_def trace_prod_commute [of "basis ! j"] mult.commute mult.left_commute)
  finally show ?thesis
    using m sym by (simp add: unpack_metric_nth assms)
qed

theorem unpacked_metric_symmetric_witness:
  "(2::nat) < kNumEdges Stencil2D \<and> (0::nat) < kNumEdges Stencil2D \<and>
   fst (unpack_metric Stencil2D (projr (MetricTensor Stencil2D zero_mem 0 2 5 basis_diag)) 0) ! (3 * 2 + 0) =
   fst (unpack_metric Stencil2D (projr (MetricTensor Stencil2D zero_mem 0 2 5 basis_diag)) 0) ! (3 * 0 + 2) \<and>
   fst (unpack_metric Stencil2D (projr (MetricTensor Stencil2D zero_mem 0 2 5 basis_diag)) 0) ! (3 * 2 + 0) = 0"
proof -
  have h: "2 < kNumEdges Stencil2D" "0 < kNumEdges Stencil2D" by simp_all
  have "trace_prod (basis_diag ! 2) (basis_diag ! 0) = 0"
    by (simp add: trace_prod_def basis_diag_def sum_lessThan_3)
  moreover have "trace3 (basis_diag ! 2) = 0"
    by (simp add: trace3_def basis_diag_def)
  ultimately show ?thesis
    using unpacked_metric_symmetric [OF h, of zero_mem 0 2 5 basis_diag] h by auto
qed

subsection \<open>ComputeForce: the force of an element and of the flex\<close>

lemma GradSquaredLengths_nth:
  assumes "j < kNumEdges T" "s < 2" "c < 3"
  shows "GradSquaredLengths T x v ! j ! s ! c = spec_gradient T x v j s c"
proof -
  have "s = 0 \<or> s = 1" using assms(2) by auto
  then show ?thesis
    using assms(1,3) by (auto simp: GradSquaredLengths_def spec_gradient_def)
qed

lemma sum_slot3:
  fixes g :: "nat \<Rightarrow> mjtNum"
  assumes "c < 3"
  shows "(\<Sum>x<3. if 3 * w + c = 3 * a + x then g x else 0) = (if w = a then g c else 0)"
proof -
  have "(\<Sum>x<3. if 3 * w + c = 3 * a + x then g x else 0) =
      (\<Sum>x<3. if w = a \<and> c = x then g x else 0)"
    by (intro sum.cong refl) (use assms in \<open>simp add: slot_eq\<close>)
  also have "\<dots> = (if w = a then g c else 0)"
    using assms by (cases "w = a") (simp_all add: sum.delta')
  finally show ?thesis .
qed

lemma local_force_sum:
  "length (local_force T el gradient metric) = kNumVerts T * 3 \<and>
   (\<forall>k<kNumVerts T * 3. local_force T el gradient metric ! k =
      (\<Sum>ed1<kNumEdges T. \<Sum>ed2<kNumEdges T. \<Sum>i<2. \<Sum>x<3.
         if k = 3 * (edge T ! ed2 ! i) + x
         then - (el ! ed1 * gradient ! ed2 ! i ! x * metric ! (kNumEdges T * ed1 + ed2))
         else 0))"
proof -
  let ?E = "kNumEdges T"
  let ?n = "kNumVerts T * 3"
  let ?c = "\<lambda>ed1 ed2 i x. - (el ! ed1 * gradient ! ed2 ! i ! x * metric ! (?E * ed1 + ed2))"
  let ?step = "\<lambda>ed1 ed2 i x force.
      force[3 * (edge T ! ed2 ! i) + x :=
        force ! (3 * (edge T ! ed2 ! i) + x) -
        el ! ed1 * gradient ! ed2 ! i ! x * metric ! (?E * ed1 + ed2)]"
  let ?D4 = "\<lambda>ed1 ed2 i x k. if k = 3 * (edge T ! ed2 ! i) + x then ?c ed1 ed2 i x else 0"
  let ?D3 = "\<lambda>ed1 ed2 i k. \<Sum>x\<leftarrow>[0..<3]. ?D4 ed1 ed2 i x k"
  let ?D2 = "\<lambda>ed1 ed2 k. \<Sum>i\<leftarrow>[0..<2]. ?D3 ed1 ed2 i k"
  let ?D1 = "\<lambda>ed1 k. \<Sum>ed2\<leftarrow>[0..<?E]. ?D2 ed1 ed2 k"
  have l4: "length (fold (?step ed1 ed2 i) [0..<3] f) = ?n \<and>
      (\<forall>k<?n. fold (?step ed1 ed2 i) [0..<3] f ! k = f ! k + ?D3 ed1 ed2 i k)"
    if "length f = ?n" for ed1 ed2 i f
    by (rule fold_add_nth [OF _ that]) (simp add: nth_list_update_if)
  have l3: "length (fold (\<lambda>i. fold (?step ed1 ed2 i) [0..<3]) [0..<2] f) = ?n \<and>
      (\<forall>k<?n. fold (\<lambda>i. fold (?step ed1 ed2 i) [0..<3]) [0..<2] f ! k = f ! k + ?D2 ed1 ed2 k)"
    if "length f = ?n" for ed1 ed2 f
    by (rule fold_add_nth [OF _ that]) (rule l4)
  have l2: "length (fold (\<lambda>ed2. fold (\<lambda>i. fold (?step ed1 ed2 i) [0..<3]) [0..<2]) [0..<?E] f) = ?n \<and>
      (\<forall>k<?n. fold (\<lambda>ed2. fold (\<lambda>i. fold (?step ed1 ed2 i) [0..<3]) [0..<2]) [0..<?E] f ! k
          = f ! k + ?D1 ed1 k)"
    if "length f = ?n" for ed1 f
    by (rule fold_add_nth [OF _ that]) (rule l3)
  have l1: "length (local_force T el gradient metric) = ?n \<and>
      (\<forall>k<?n. local_force T el gradient metric ! k =
          replicate ?n 0 ! k + (\<Sum>ed1\<leftarrow>[0..<?E]. ?D1 ed1 k))"
    unfolding local_force_def
    by (rule fold_add_nth) (use l2 in simp_all)
  then show ?thesis by (simp add: sum_list_upt0)
qed

lemma neg_if_zero: "(if P then - a else 0) = - (if P then a else (0::mjtNum))"
  by simp

lemma local_force_nth:
  assumes "w < kNumVerts T" "c < 3"
  shows "local_force T el gradient metric ! (3 * w + c) =
     - (\<Sum>i<kNumEdges T. \<Sum>j<kNumEdges T. \<Sum>s<2.
          if edge T ! j ! s = w
          then el ! i * gradient ! j ! s ! c * metric ! (kNumEdges T * i + j) else 0)"
proof -
  have k: "3 * w + c < kNumVerts T * 3" using assms by simp
  have "local_force T el gradient metric ! (3 * w + c) =
      (\<Sum>i<kNumEdges T. \<Sum>j<kNumEdges T. \<Sum>s<2. \<Sum>x<3.
         if 3 * w + c = 3 * (edge T ! j ! s) + x
         then - (el ! i * gradient ! j ! s ! x * metric ! (kNumEdges T * i + j))
         else 0)"
    using local_force_sum [of T el gradient metric] k by blast
  also have "\<dots> = (\<Sum>i<kNumEdges T. \<Sum>j<kNumEdges T. \<Sum>s<2.
         if w = edge T ! j ! s
         then - (el ! i * gradient ! j ! s ! c * metric ! (kNumEdges T * i + j)) else 0)"
    by (simp only: sum_slot3 [OF assms(2)])
  also have "\<dots> = - (\<Sum>i<kNumEdges T. \<Sum>j<kNumEdges T. \<Sum>s<2.
          if edge T ! j ! s = w
          then el ! i * gradient ! j ! s ! c * metric ! (kNumEdges T * i + j) else 0)"
    by (simp only: neg_if_zero sum_negf eq_commute [of w])
  finally show ?thesis .
qed

lemma insert_force_sum:
  "length (insert_force T v frc q) = length q \<and>
   (\<forall>k<length q. insert_force T v frc q ! k =
      q ! k + (\<Sum>i<kNumVerts T. \<Sum>x<3. if k = 3 * v i + x then frc ! (3 * i + x) else 0))"
proof -
  let ?n = "length q"
  let ?step = "\<lambda>i x q. q[3 * v i + x := q ! (3 * v i + x) + frc ! (3 * i + x)]"
  let ?D2 = "\<lambda>i x k. if k = 3 * v i + x then frc ! (3 * i + x) else 0"
  let ?D1 = "\<lambda>i k. \<Sum>x\<leftarrow>[0..<3]. ?D2 i x k"
  have l2: "length (fold (?step i) [0..<3] f) = ?n \<and>
      (\<forall>k<?n. fold (?step i) [0..<3] f ! k = f ! k + ?D1 i k)"
    if "length f = ?n" for i f
    by (rule fold_add_nth [OF _ that]) (simp add: nth_list_update_if)
  have "length (insert_force T v frc q) = ?n \<and>
      (\<forall>k<?n. insert_force T v frc q ! k = q ! k + (\<Sum>i\<leftarrow>[0..<kNumVerts T]. ?D1 i k))"
    unfolding insert_force_def
    by (rule fold_add_nth) (use l2 in simp_all)
  then show ?thesis by (simp add: sum_list_upt0)
qed

lemma gather_elongation_nth:
  "e < kNumEdges T \<Longrightarrow> gather_elongation T el edgeelem t ! e = el ! (edgeelem (t * kNumEdges T + e))"
  by (simp add: gather_elongation_def)

lemma element_local_force:
  assumes "w < kNumVerts T" "c < 3"
  shows "local_force T
           (gather_elongation T el (ptr_add (flex_elemedge m) (flex_elemedgeadr m flex)) t)
           (GradSquaredLengths T xpos (elem_vertices m flex t))
           (fst (unpack_metric T (ptr_add (flex_stiffness m) (21 * flex_elemadr m flex)) t))
         ! (3 * w + c) =
         spec_local_force T (elem_elongation T el m flex t) (elem_metric T m flex t) xpos
           (elem_vertices m flex t) w c"
  unfolding spec_local_force_def local_force_nth [OF assms]
  by (intro arg_cong [where f = uminus] sum.cong refl)
     (simp add: gather_elongation_nth GradSquaredLengths_nth unpack_metric_nth assms(2)
        elem_elongation_def elem_metric_def ptr_add_def)

lemma ComputeForce_sum:
  "length (ComputeForce T q el m flex xpos) = length q \<and>
   (\<forall>k<length q. ComputeForce T q el m flex xpos ! k = spec_ComputeForce T el m flex xpos k)"
proof -
  let ?n = "length q"
  let ?lf = "\<lambda>t. local_force T
           (gather_elongation T el (ptr_add (flex_elemedge m) (flex_elemedgeadr m flex)) t)
           (GradSquaredLengths T xpos (elem_vertices m flex t))
           (fst (unpack_metric T (ptr_add (flex_stiffness m) (21 * flex_elemadr m flex)) t))"
  let ?D = "\<lambda>t k. \<Sum>i<kNumVerts T. \<Sum>x<3.
      if k = 3 * elem_vertices m flex t i + x then ?lf t ! (3 * i + x) else 0"
  have step: "length (insert_force T (elem_vertices m flex t) (?lf t) f) = ?n \<and>
      (\<forall>k<?n. insert_force T (elem_vertices m flex t) (?lf t) f ! k = f ! k + ?D t k)"
    if "length f = ?n" for t f
    using insert_force_sum [of T "elem_vertices m flex t" "?lf t" f] that by simp
  have "length (fold (\<lambda>t. insert_force T (elem_vertices m flex t) (?lf t))
          [0..<flex_elemnum m flex] (replicate ?n 0)) = ?n \<and>
      (\<forall>k<?n. fold (\<lambda>t. insert_force T (elem_vertices m flex t) (?lf t))
          [0..<flex_elemnum m flex] (replicate ?n 0) ! k =
          replicate ?n 0 ! k + (\<Sum>t\<leftarrow>[0..<flex_elemnum m flex]. ?D t k))"
    by (rule fold_add_nth) (use step in simp_all)
  then have main: "length (ComputeForce T q el m flex xpos) = ?n \<and>
      (\<forall>k<?n. ComputeForce T q el m flex xpos ! k = (\<Sum>t<flex_elemnum m flex. ?D t k))"
    by (simp add: ComputeForce_def Let_def elem_vertices_def sum_list_upt0)
  have "(\<Sum>t<flex_elemnum m flex. ?D t k) = spec_ComputeForce T el m flex xpos k" for k
    unfolding spec_ComputeForce_def
    by (intro sum.cong refl) (simp add: element_local_force eq_commute [of k])
  with main show ?thesis by simp
qed

lemma edge_vertex_3D:
  "\<forall>j \<in> set [0..<6]. \<forall>s \<in> set [0..<2]. edge Stencil3D ! j ! s < 4"
  by code_simp

lemma edge_vertex_2D:
  "\<forall>j \<in> set [0..<3]. \<forall>s \<in> set [0..<2]. edge Stencil2D ! j ! s < 3"
  by code_simp

lemma edge_vertex_less:
  assumes "j < kNumEdges T" "s < 2"
  shows "edge T ! j ! s < kNumVerts T"
proof (cases T)
  case Stencil2D
  then have "j \<in> set [0..<3]" "s \<in> set [0..<2]" using assms by simp_all
  then show ?thesis using edge_vertex_2D Stencil2D by simp
next
  case Stencil3D
  then have "j \<in> set [0..<6]" "s \<in> set [0..<2]" using assms by simp_all
  then show ?thesis using edge_vertex_3D Stencil3D by simp
qed

lemma sum_lessThan_2: "(\<Sum>s<(2::nat). f s) = f 0 + (f 1 :: mjtNum)"
  by (simp add: eval_nat_numeral)

lemma edge_pair_cancels:
  assumes "j < kNumEdges T" "c < 3"
  shows "(\<Sum>w<kNumVerts T. \<Sum>s<2.
           if edge T ! j ! s = w
           then a * GradSquaredLengths T x v ! j ! s ! c * b else 0) = 0"
proof -
  have "(\<Sum>w<kNumVerts T. \<Sum>s<2.
           if edge T ! j ! s = w then a * GradSquaredLengths T x v ! j ! s ! c * b else 0) =
        (\<Sum>s<2. \<Sum>w<kNumVerts T.
           if edge T ! j ! s = w then a * GradSquaredLengths T x v ! j ! s ! c * b else 0)"
    by (rule sum.swap)
  also have "\<dots> = (\<Sum>s<2. a * GradSquaredLengths T x v ! j ! s ! c * b)"
    by (intro sum.cong refl) (use assms edge_vertex_less in \<open>simp add: sum.delta\<close>)
  also have "\<dots> = 0"
    using assms
    by (simp add: sum_lessThan_2 GradSquaredLengths_nth spec_gradient_def algebra_simps)
  finally show ?thesis .
qed

lemma local_force_conserved:
  assumes "c < 3"
  shows "(\<Sum>w<kNumVerts T. local_force T el (GradSquaredLengths T x v) metric ! (3 * w + c)) = 0"
proof -
  let ?a = "\<lambda>w i j. \<Sum>s<2. if edge T ! j ! s = w
      then el ! i * GradSquaredLengths T x v ! j ! s ! c * metric ! (kNumEdges T * i + j) else 0"
  have "(\<Sum>w<kNumVerts T. local_force T el (GradSquaredLengths T x v) metric ! (3 * w + c)) =
      (\<Sum>w<kNumVerts T. - (\<Sum>i<kNumEdges T. \<Sum>j<kNumEdges T. ?a w i j))"
    by (intro sum.cong refl) (simp add: local_force_nth assms)
  also have "\<dots> = - (\<Sum>w<kNumVerts T. \<Sum>i<kNumEdges T. \<Sum>j<kNumEdges T. ?a w i j)"
    by (simp add: sum_negf)
  also have "(\<Sum>w<kNumVerts T. \<Sum>i<kNumEdges T. \<Sum>j<kNumEdges T. ?a w i j) =
      (\<Sum>i<kNumEdges T. \<Sum>w<kNumVerts T. \<Sum>j<kNumEdges T. ?a w i j)"
    by (rule sum.swap)
  also have "\<dots> = (\<Sum>i<kNumEdges T. \<Sum>j<kNumEdges T. \<Sum>w<kNumVerts T. ?a w i j)"
    by (rule sum.cong [OF refl]) (rule sum.swap)
  also have "\<dots> = (\<Sum>i<kNumEdges T. \<Sum>j<kNumEdges T. 0)"
    by (intro sum.cong refl) (simp add: edge_pair_cancels assms)
  finally show ?thesis by simp
qed

text \<open>
  C1.  For every stencil, elongation vector, packed metric tensors and vertex
  positions, ComputeForce returns a buffer of the size of its output argument in
  which every cell \<open>k\<close> holds the sum, over the elements \<open>t\<close> and their vertices \<open>i\<close>
  and components \<open>c\<close> with \<open>3 v\<^sub>t[i] + c = k\<close>, of the local force of the element:
  starting from zero, for every ordered pair of edges \<open>(i, j)\<close> and each of the two
  endpoints of edge \<open>j\<close>, the force of that endpoint is decremented by
  \<open>elongation[i] * gradient[j][side] * metric[i,j]\<close>, where \<open>gradient[j]\<close> is the
  difference of the positions of the endpoints of edge \<open>j\<close>, with opposite signs for
  the two endpoints.  (A vertex index beyond the buffer is undefined behaviour in
  the code; the theorem speaks about the cells of the buffer.)
\<close>

theorem ComputeForce_contract:
  "length (ComputeForce T q el m flex xpos) = length q \<and>
   (\<forall>k<length q. ComputeForce T q el m flex xpos ! k = spec_ComputeForce T el m flex xpos k)"
  by (rule ComputeForce_sum)

theorem ComputeForce_contract_witness:
  "(0::nat) < length (replicate 12 (0::mjtNum)) \<and>
   ComputeForce Stencil3D (replicate 12 0) tet_elongation tet_model 0 tet_xpos ! 0 = 1"
proof -
  have "spec_ComputeForce Stencil3D tet_elongation tet_model 0 tet_xpos 0 = 1"
    by code_simp
  moreover have "(0::nat) < length (replicate 12 (0::mjtNum))" by simp
  ultimately show ?thesis
    using ComputeForce_contract [of Stencil3D "replicate 12 0" tet_elongation tet_model 0 tet_xpos]
    by metis
qed

text \<open>
  C5.  For every stencil, element, metric tensor and elongation vector, and every
  component \<open>c\<close>, the local forces that the assembler computes for the vertices of
  one element sum to zero.
\<close>

theorem local_force_conservation:
  assumes "c < 3"
  shows "(\<Sum>w<kNumVerts T. local_force T el (GradSquaredLengths T x v) metric ! (3 * w + c)) = 0"
  using assms by (rule local_force_conserved)

theorem local_force_conservation_witness:
  "(0::nat) < 3 \<and>
   (\<Sum>w<kNumVerts Stencil3D.
      local_force Stencil3D tet_elongation (GradSquaredLengths Stencil3D tet_xpos (\<lambda>i. i))
        (replicate 36 1) ! (3 * w + 0)) = 0 \<and>
   local_force Stencil3D tet_elongation (GradSquaredLengths Stencil3D tet_xpos (\<lambda>i. i))
        (replicate 36 1) ! 0 = 1"
proof -
  have "local_force Stencil3D tet_elongation (GradSquaredLengths Stencil3D tet_xpos (\<lambda>i. i))
        (replicate 36 1) ! 0 = 1"
    by code_simp
  moreover have "(0::nat) < 3" by simp
  ultimately show ?thesis
    using local_force_conservation [of 0 Stencil3D tet_elongation tet_xpos "\<lambda>i. i" "replicate 36 1"]
    by simp
qed

subsection \<open>AddFlexForce: the two paths of the force scatter\<close>

lemma fold_add_direct:
  "fold (\<lambda>x q. q(dofadr + x := q (dofadr + x) + frc ! (3 * v + x))) [0..<n] qfrc =
   add_direct frc v dofadr n qfrc"
proof (induction n)
  case 0
  show ?case by (auto simp: add_direct_def fun_eq_iff)
next
  case (Suc n)
  have "fold (\<lambda>x q. q(dofadr + x := q (dofadr + x) + frc ! (3 * v + x))) [0..<Suc n] qfrc =
      (add_direct frc v dofadr n qfrc)
        (dofadr + n := add_direct frc v dofadr n qfrc (dofadr + n) + frc ! (3 * v + n))"
    by (simp add: Suc.IH)
  also have "\<dots> = add_direct frc v dofadr (Suc n) qfrc"
    by (auto simp: add_direct_def fun_eq_iff)
  finally show ?case .
qed

lemma add_direct_cong:
  assumes "\<forall>x<n. frc' ! (3 * v + x) = frc ! (3 * v + x)"
  shows "add_direct frc' v dofadr n qfrc = add_direct frc v dofadr n qfrc"
proof (rule ext)
  fix a
  show "add_direct frc' v dofadr n qfrc a = add_direct frc v dofadr n qfrc a"
  proof (cases "dofadr \<le> a \<and> a < dofadr + n")
    case True
    then have "a - dofadr < n" by arith
    with assms have "frc' ! (3 * v + (a - dofadr)) = frc ! (3 * v + (a - dofadr))" by blast
    then show ?thesis by (simp only: add_direct_def True if_True)
  next
    case False
    show ?thesis by (simp only: add_direct_def False if_False)
  qed
qed

lemma AddFlexForce_vertex_simple:
  assumes "body_simple m (bodyid v) = 2"
  shows "AddFlexForce_vertex A frc m d xpos bodyid v qfrc =
         add_direct frc v (body_dofadr m (bodyid v)) (body_dofnum m (bodyid v)) qfrc"
  using assms by (simp add: AddFlexForce_vertex_def Let_def fold_add_direct)

lemma AddFlexForce_vertex_general:
  assumes "body_simple m (bodyid v) \<noteq> 2"
  shows "AddFlexForce_vertex A frc m d xpos bodyid v qfrc =
         A m d (ptr_add (vec_data frc) (3 * v)) None (ptr_add xpos (3 * v)) (bodyid v) qfrc"
  using assms by (simp add: AddFlexForce_vertex_def Let_def)

lemma AddFlexForce_vertex_eq:
  "AddFlexForce_vertex A frc m d xpos (ptr_add (flex_vertbodyid m) (flex_vertadr m flex)) v qfrc =
   spec_scatter_vertex A frc m d xpos flex v qfrc"
  by (simp add: AddFlexForce_vertex_def spec_scatter_vertex_def Let_def fold_add_direct
      ptr_add_def vec_data_def)

text \<open>
  C7 (as amended).  AddFlexForce visits the vertices of the flex in order and routes
  each through one of two paths: if the simple-classification of the owning body is
  not \<open>2\<close>, the 3D force of the vertex is handed to \<open>mj_applyFT\<close> as a point force (no
  torque) at the vertex position on that body; if it is \<open>2\<close>, the first
  \<open>body_dofnum\<close> components of the force (all three for a body with three degrees of
  freedom) are added into the generalized-force cells starting at \<open>body_dofadr\<close>.
\<close>

theorem AddFlexForce_routing:
  "AddFlexForce A qfrc frc m d xpos flex =
   fold (spec_scatter_vertex A frc m d xpos flex) [0..<flex_vertnum m flex] qfrc"
  by (simp add: AddFlexForce_def Let_def AddFlexForce_vertex_eq [abs_def])

text \<open>
  The claim as stated has all three components added on the simple path.  For a
  simple body with one degree of freedom and the force \<open>(1, 2, 3)\<close> only the first
  component arrives: the second cell of the generalized force stays \<open>0\<close>.
\<close>

theorem AddFlexForce_three_components_counterexample:
  "body_simple ex_slider_model (flex_vertbodyid ex_slider_model 0) = 2 \<and>
   AddFlexForce ex_applyFT zero_mem [1, 2, 3] ex_slider_model ex_data tet_xpos 0 0 = 1 \<and>
   AddFlexForce ex_applyFT zero_mem [1, 2, 3] ex_slider_model ex_data tet_xpos 0 1 = 0 \<and>
   AddFlexForce ex_applyFT zero_mem [1, 2, 3] ex_slider_model ex_data tet_xpos 0 1 \<noteq>
     zero_mem 1 + [1, 2, 3] ! 1"
  by (simp add: AddFlexForce_def AddFlexForce_vertex_def ex_slider_model_def tet_model_def
      zero_mem_def ptr_add_def)

text \<open>
  C10.  For a vertex whose owning body has simple-classification \<open>2\<close>, the loop body
  adds exactly the force components \<open>0 .. body_dofnum - 1\<close> of the vertex to the
  generalized-force cells \<open>body_dofadr .. body_dofadr + body_dofnum - 1\<close> and leaves
  every other cell unchanged; the result does not depend on the remaining
  components, which are discarded.  For every other classification value the
  vertex goes through \<open>mj_applyFT\<close>.
\<close>

theorem AddFlexForce_vertex_simple_path:
  fixes bodyid :: "nat ptr"
  shows
  "(body_simple m (bodyid v) = 2 \<longrightarrow>
      (\<forall>x<body_dofnum m (bodyid v).
         AddFlexForce_vertex A frc m d xpos bodyid v qfrc (body_dofadr m (bodyid v) + x) =
         qfrc (body_dofadr m (bodyid v) + x) + frc ! (3 * v + x)) \<and>
      (\<forall>a. a < body_dofadr m (bodyid v) \<or> body_dofadr m (bodyid v) + body_dofnum m (bodyid v) \<le> a \<longrightarrow>
         AddFlexForce_vertex A frc m d xpos bodyid v qfrc a = qfrc a) \<and>
      (\<forall>frc'. (\<forall>x<body_dofnum m (bodyid v). frc' ! (3 * v + x) = frc ! (3 * v + x)) \<longrightarrow>
         AddFlexForce_vertex A frc' m d xpos bodyid v qfrc =
         AddFlexForce_vertex A frc m d xpos bodyid v qfrc)) \<and>
   (body_simple m (bodyid v) \<noteq> 2 \<longrightarrow>
      AddFlexForce_vertex A frc m d xpos bodyid v qfrc =
      A m d (ptr_add (vec_data frc) (3 * v)) None (ptr_add xpos (3 * v)) (bodyid v) qfrc)"
proof (intro conjI impI allI)
  fix x
  assume "body_simple m (bodyid v) = 2" "x < body_dofnum m (bodyid v)"
  then show "AddFlexForce_vertex A frc m d xpos bodyid v qfrc (body_dofadr m (bodyid v) + x) =
         qfrc (body_dofadr m (bodyid v) + x) + frc ! (3 * v + x)"
    by (simp add: AddFlexForce_vertex_simple add_direct_def)
next
  fix a
  assume "body_simple m (bodyid v) = 2"
    "a < body_dofadr m (bodyid v) \<or> body_dofadr m (bodyid v) + body_dofnum m (bodyid v) \<le> a"
  then show "AddFlexForce_vertex A frc m d xpos bodyid v qfrc a = qfrc a"
    by (auto simp: AddFlexForce_vertex_simple add_direct_def)
next
  fix frc'
  assume "body_simple m (bodyid v) = 2"
    "\<forall>x<body_dofnum m (bodyid v). frc' ! (3 * v + x) = frc ! (3 * v + x)"
  then show "AddFlexForce_vertex A frc' m d xpos bodyid v qfrc =
         AddFlexForce_vertex A frc m d xpos bodyid v qfrc"
    by (simp add: AddFlexForce_vertex_simple add_direct_cong)
next
  assume "body_simple m (bodyid v) \<noteq> 2"
  then show "AddFlexForce_vertex A frc m d xpos bodyid v qfrc =
      A m d (ptr_add (vec_data frc) (3 * v)) None (ptr_add xpos (3 * v)) (bodyid v) qfrc"
    by (rule AddFlexForce_vertex_general)
qed

theorem AddFlexForce_vertex_simple_path_witness:
  "body_simple ex_slider_model 1 = 2 \<and> (0::nat) < body_dofnum ex_slider_model 1 \<and>
   AddFlexForce_vertex ex_applyFT [1, 2, 3] ex_slider_model ex_data tet_xpos (\<lambda>_. 1) 0 zero_mem
     (body_dofadr ex_slider_model 1 + 0) =
     zero_mem (body_dofadr ex_slider_model 1 + 0) + [1, 2, 3] ! (3 * 0 + 0) \<and>
   body_simple ex_slider_model 0 \<noteq> 2 \<and>
   AddFlexForce_vertex ex_applyFT [1, 2, 3] ex_slider_model ex_data tet_xpos (\<lambda>_. 0) 0 zero_mem =
     ex_applyFT ex_slider_model ex_data (ptr_add (vec_data [1, 2, 3]) (3 * 0)) None
       (ptr_add tet_xpos (3 * 0)) 0 zero_mem"
proof -
  have s1: "body_simple ex_slider_model 1 = 2"
    and s2: "(0::nat) < body_dofnum ex_slider_model 1"
    and s3: "body_simple ex_slider_model 0 \<noteq> 2"
    by (simp_all add: ex_slider_model_def tet_model_def)
  note simple = AddFlexForce_vertex_simple_path [of ex_slider_model "\<lambda>_. 1" 0 ex_applyFT
      "[1, 2, 3]" ex_data tet_xpos zero_mem, THEN conjunct1, THEN mp, OF s1, THEN conjunct1,
      THEN spec, THEN mp, OF s2]
  note general = AddFlexForce_vertex_simple_path [of ex_slider_model "\<lambda>_. 0" 0 ex_applyFT
      "[1, 2, 3]" ex_data tet_xpos zero_mem, THEN conjunct2, THEN mp, OF s3]
  from s1 s2 simple s3 general show ?thesis by (intro conjI)
qed

subsection \<open>Compute: elongation and the previous-length buffer\<close>

lemma fold_assign_nth:
  assumes "i < length el"
  shows "fold (\<lambda>idx el. el[idx := g idx]) xs el ! i = (if i \<in> set xs then g i else el ! i)"
proof -
  have "length (fold (\<lambda>idx el. el[idx := g idx]) xs el) = length el \<and>
      (\<forall>k<length el. fold (\<lambda>idx el. el[idx := g idx]) xs el ! k =
         fold (\<lambda>idx v. if True \<and> k = idx then g idx else v) xs (el ! k))"
    by (rule fold_slotwise) (simp_all add: nth_list_update_if)
  then show ?thesis using assms by (simp only: fold_if_eq) simp
qed

lemma memcpy_vec_full:
  "length dst = n \<Longrightarrow> memcpy_vec dst src n = map src [0..<n]"
  by (simp add: memcpy_vec_def)

lemma deformed_ptr:
  "ptr_add (flexedge_length d) (flex_edgeadr m (nat (f0 s))) = deformed_length m d s"
  by (simp add: fun_eq_iff ptr_add_def deformed_length_def)

lemma reference_ptr:
  "ptr_add (flexedge_length0 m) (flex_edgeadr m (nat (f0 s))) = reference_length m s"
  by (simp add: fun_eq_iff ptr_add_def reference_length_def)

lemma Compute_prev_init:
  "(if prev s = [] then memcpy_vec (replicate (ne s) 0) (reference_length m s) (ne s)
    else prev s) = prev_initialised m s"
  by (simp add: prev_initialised_def memcpy_vec_full)

lemma Compute_elongation:
  assumes "i < ne s" "i < length (elongation s)"
  shows "elongation (snd (Compute A m d s)) ! i =
     deformed_length m d s i * deformed_length m d s i -
     reference_length m s i * reference_length m s i +
     (deformed_length m d s i * deformed_length m d s i -
      prev_initialised m s ! i * prev_initialised m s ! i) * (damping s / opt_timestep m)"
  unfolding Compute_def Let_def deformed_ptr reference_ptr Compute_prev_init
  using assms by (simp add: fold_assign_nth)

lemma Compute_prev:
  "prev (snd (Compute A m d s)) =
     (if damping s / opt_timestep m > 0
      then memcpy_vec (prev_initialised m s) (deformed_length m d s) (ne s)
      else prev_initialised m s)"
  unfolding Compute_def Let_def deformed_ptr reference_ptr Compute_prev_init
  by simp

lemma length_prev_initialised:
  "prev s = [] \<or> length (prev s) = ne s \<Longrightarrow> length (prev_initialised m s) = ne s"
  by (auto simp: prev_initialised_def)

text \<open>
  C2.  For every edge \<open>i\<close> of the instance, the elongation that Compute stores is
  \<open>(d[i]\<^sup>2 - r[i]\<^sup>2) + kD (d[i]\<^sup>2 - p[i]\<^sup>2)\<close> with \<open>kD = damping / timestep\<close>, where \<open>p\<close>
  is the previous-length buffer, initialised from the reference lengths on the call
  that finds it empty.
\<close>

theorem Compute_elongation_formula:
  assumes "i < ne s" "i < length (elongation s)"
  shows "elongation (snd (Compute A m d s)) ! i =
     spec_elongation (deformed_length m d s i) (reference_length m s i)
       (if prev s = [] then reference_length m s i else prev s ! i)
       (damping s / opt_timestep m)"
proof -
  have "prev_initialised m s ! i = (if prev s = [] then reference_length m s i else prev s ! i)"
    using assms(1) by (simp add: prev_initialised_def)
  then show ?thesis
    by (simp add: Compute_elongation [OF assms] spec_elongation_def power2_eq_square
        mult.commute)
qed

lemma ex_lengths:
  "deformed_length tet_model ex_data ex_solid 0 = 2"
  "reference_length tet_model ex_solid 0 = 1"
  "deformed_length tet_model ex_data ex_solid_damped 0 = 2"
  "reference_length tet_model ex_solid_damped 0 = 1"
  by (simp_all add: deformed_length_def reference_length_def tet_model_def ex_data_def
      ex_solid_def ex_solid_damped_def vec_data_def)

theorem Compute_elongation_formula_witness:
  "(0::nat) < ne ex_solid_damped \<and> 0 < length (elongation ex_solid_damped) \<and>
   elongation (snd (Compute ex_applyFT tet_model ex_data ex_solid_damped)) ! 0 = 9 \<and>
   (0::nat) < ne ex_solid \<and> 0 < length (elongation ex_solid) \<and>
   elongation (snd (Compute ex_applyFT tet_model ex_data ex_solid)) ! 0 = 3"
proof -
  have h: "(0::nat) < ne ex_solid_damped" "0 < length (elongation ex_solid_damped)"
    and h': "(0::nat) < ne ex_solid" "0 < length (elongation ex_solid)"
    by (simp_all add: ex_solid_def ex_solid_damped_def)
  have "spec_elongation (deformed_length tet_model ex_data ex_solid_damped 0)
      (reference_length tet_model ex_solid_damped 0)
      (if prev ex_solid_damped = [] then reference_length tet_model ex_solid_damped 0
       else prev ex_solid_damped ! 0)
      (damping ex_solid_damped / opt_timestep tet_model) = 9"
    by (simp add: ex_lengths spec_elongation_def) (simp add: ex_solid_damped_def ex_solid_def tet_model_def)
  moreover have "spec_elongation (deformed_length tet_model ex_data ex_solid 0)
      (reference_length tet_model ex_solid 0)
      (if prev ex_solid = [] then reference_length tet_model ex_solid 0 else prev ex_solid ! 0)
      (damping ex_solid / opt_timestep tet_model) = 3"
    by (simp add: ex_lengths spec_elongation_def) (simp add: ex_solid_def tet_model_def)
  ultimately show ?thesis
    using Compute_elongation_formula [OF h, of ex_applyFT tet_model ex_data]
      Compute_elongation_formula [OF h', of ex_applyFT tet_model ex_data] h h'
    by simp
qed

text \<open>
  C6 (as amended).  After the force computation Compute overwrites the
  previous-length buffer with the current deformed lengths if \<open>kD > 0\<close>; if \<open>kD = 0\<close>
  the buffer keeps the content it had after the first-call initialisation (the
  reference lengths if it was empty, its old content otherwise).  With damping
  coefficient \<open>0\<close> the elongation of every edge is exactly
  \<open>deformed\<^sup>2 - reference\<^sup>2\<close>, whatever the buffer holds, and a buffer that has been
  initialised is left as it is.
\<close>

theorem Compute_prev_buffer:
  assumes "prev s = [] \<or> length (prev s) = ne s"
  shows
  "(damping s / opt_timestep m > 0 \<longrightarrow>
      prev (snd (Compute A m d s)) = map (deformed_length m d s) [0..<ne s]) \<and>
   (damping s / opt_timestep m = 0 \<longrightarrow>
      prev (snd (Compute A m d s)) =
        (if prev s = [] then map (reference_length m s) [0..<ne s] else prev s)) \<and>
   (damping s = 0 \<longrightarrow>
      (prev s \<noteq> [] \<longrightarrow> prev (snd (Compute A m d s)) = prev s) \<and>
      (\<forall>i<ne s. i < length (elongation s) \<longrightarrow>
         elongation (snd (Compute A m d s)) ! i =
         (deformed_length m d s i)\<^sup>2 - (reference_length m s i)\<^sup>2))"
proof (intro conjI impI allI)
  assume "damping s / opt_timestep m > 0"
  then show "prev (snd (Compute A m d s)) = map (deformed_length m d s) [0..<ne s]"
    using length_prev_initialised [OF assms, of m]
    by (simp add: Compute_prev memcpy_vec_full)
next
  assume z: "damping s / opt_timestep m = 0"
  have "prev (snd (Compute A m d s)) = prev_initialised m s"
    unfolding Compute_prev z by simp
  then show "prev (snd (Compute A m d s)) =
      (if prev s = [] then map (reference_length m s) [0..<ne s] else prev s)"
    by (simp add: prev_initialised_def)
next
  assume "damping s = 0" "prev s \<noteq> []"
  then show "prev (snd (Compute A m d s)) = prev s"
    by (simp add: Compute_prev prev_initialised_def)
next
  fix i
  assume "damping s = 0" "i < ne s" "i < length (elongation s)"
  then show "elongation (snd (Compute A m d s)) ! i =
      (deformed_length m d s i)\<^sup>2 - (reference_length m s i)\<^sup>2"
    by (simp add: Compute_elongation power2_eq_square)
qed

text \<open>
  The claim as stated has the buffer never updated when the damping coefficient is
  \<open>0\<close>.  On the first call the buffer is empty and Compute fills it with the
  reference lengths, with damping \<open>0\<close> as with any other.
\<close>

theorem Compute_prev_initialised_counterexample:
  "damping ex_solid = 0 \<and> prev ex_solid = [] \<and>
   prev (snd (Compute ex_applyFT tet_model ex_data ex_solid)) = [1, 1, 1, 1, 1, 1] \<and>
   prev (snd (Compute ex_applyFT tet_model ex_data ex_solid)) \<noteq> prev ex_solid"
proof -
  have "map (reference_length tet_model ex_solid) [0..<6] = [1, 1, 1, 1, 1, 1]"
    by code_simp
  then show ?thesis
    by (simp add: Compute_prev prev_initialised_def) (simp add: ex_solid_def)
qed

theorem Compute_prev_buffer_witness:
  "(prev ex_solid_damped = [] \<or> length (prev ex_solid_damped) = ne ex_solid_damped) \<and>
   damping ex_solid_damped / opt_timestep tet_model > 0 \<and>
   prev (snd (Compute ex_applyFT tet_model ex_data ex_solid_damped)) =
     map (deformed_length tet_model ex_data ex_solid_damped) [0..<ne ex_solid_damped] \<and>
   (prev ex_solid = [] \<or> length (prev ex_solid) = ne ex_solid) \<and>
   damping ex_solid = 0 \<and> (0::nat) < ne ex_solid \<and> 0 < length (elongation ex_solid) \<and>
   elongation (snd (Compute ex_applyFT tet_model ex_data ex_solid)) ! 0 = 3"
proof -
  have a: "prev ex_solid_damped = [] \<or> length (prev ex_solid_damped) = ne ex_solid_damped"
    and b: "damping ex_solid_damped / opt_timestep tet_model > 0"
    and a': "prev ex_solid = [] \<or> length (prev ex_solid) = ne ex_solid"
    and b': "damping ex_solid = 0"
    and c': "(0::nat) < ne ex_solid" "0 < length (elongation ex_solid)"
    by (simp_all add: ex_solid_def ex_solid_damped_def tet_model_def)
  note damped = Compute_prev_buffer [OF a, of tet_model ex_applyFT ex_data,
      THEN conjunct1, THEN mp, OF b]
  note undamped = Compute_prev_buffer [OF a', of tet_model ex_applyFT ex_data,
      THEN conjunct2, THEN conjunct2, THEN mp, OF b', THEN conjunct2, THEN spec, THEN mp,
      OF c'(1), THEN mp, OF c'(2)]
  have "elongation (snd (Compute ex_applyFT tet_model ex_data ex_solid)) ! 0 = 3"
    using undamped by (simp add: ex_lengths)
  with a b damped a' b' c' show ?thesis by (intro conjI)
qed

subsection \<open>Create: when the factory returns no instance\<close>

lemma element_step_outcome:
  "map_sum id (\<lambda>_. ()) (element_step m instance nu E f t st) =
   check_element_bodies m instance f (elem_vertices m f t)"
proof -
  obtain metric' where
    "MetricTensor Stencil3D (ptr_add st (21 * flex_elemadr m f)) t
       (E / (2 * (1 + nu)) * ComputeVolume (ptr_add (flex_xvert0 m) (3 * flex_vertadr m f))
          (elem_vertices m f t))
       (E * nu / ((1 + nu) * (1 - 2 * nu)) *
          ComputeVolume (ptr_add (flex_xvert0 m) (3 * flex_vertadr m f)) (elem_vertices m f t))
       (map (\<lambda>e. ComputeBasis (ptr_add (flex_xvert0 m) (3 * flex_vertadr m f))
                   (elem_vertices m f t) (face ! (e2f ! e ! 0)) (face ! (e2f ! e ! 1))
                   (ComputeVolume (ptr_add (flex_xvert0 m) (3 * flex_vertadr m f))
                      (elem_vertices m f t)))
          [0..<kNumEdges Stencil3D]) = Inr metric'"
    by (rule MetricTensor_Inr_unique)
  then show ?thesis
    by (cases "check_element_bodies m instance f (elem_vertices m f t)")
       (simp_all add: element_step_def Let_def elem_vertices_def)
qed

lemma fold_err_outcome:
  assumes "\<And>t st. map_sum id (\<lambda>_. ()) (F t st) = G t"
  shows "map_sum id (\<lambda>_. ()) (fold_err F ts st) = fold_err (\<lambda>t u. G t) ts ()"
proof (induction ts arbitrary: st)
  case Nil
  show ?case by simp
next
  case (Cons t ts)
  show ?case
  proof (cases "F t st")
    case (Inl e)
    have g: "G t = Inl e" using assms [of t st] Inl by simp
    show ?thesis by (simp add: Inl g)
  next
    case (Inr st')
    have g: "G t = Inr ()" using assms [of t st] Inr by simp
    show ?thesis using Cons.IH [of st'] by (simp add: Inr g)
  qed
qed

lemma Solid_ctor_outcome:
  "map_sum id (\<lambda>_. ()) (Solid_ctor m instance nu E damp i0_init) = mesh_checks m instance i0_init"
proof -
  have loop: "map_sum id (\<lambda>_. ()) (fold_err (element_step m instance nu E f) ts st) =
      fold_err (\<lambda>t u. check_element_bodies m instance f (elem_vertices m f t)) ts ()" for f ts st
    by (rule fold_err_outcome) (rule element_step_outcome)
  show ?thesis
  proof (cases "count_plugin_bodies m instance i0_init")
    case (Pair nv1 i0')
    show ?thesis
    proof (cases "find_flex m i0' nv1")
      case (Inl e)
      with Pair show ?thesis by (simp add: Solid_ctor_def mesh_checks_def)
    next
      case (Inr r)
      obtain f0' nv2 where r: "r = (f0', nv2)" by (cases r)
      show ?thesis
        using loop [of "nat f0'" "[0..<flex_elemnum m (nat f0')]" "flex_stiffness m"]
        by (cases "fold_err (element_step m instance nu E (nat f0'))
                     [0..<flex_elemnum m (nat f0')] (flex_stiffness m)")
           (simp_all add: Solid_ctor_def mesh_checks_def Pair Inr r Let_def)
    qed
  qed
qed

lemma Solid_ctor_damping:
  "Solid_ctor m instance nu E damp i0_init = Inr (m', s) \<Longrightarrow> damping s = damp \<and> prev s = []"
  by (auto simp: Solid_ctor_def Let_def split: prod.splits sum.splits)

lemma Create_outcome:
  assumes "CheckAttr ''face'' m instance \<and> CheckAttr ''edge'' m instance \<and>
           CheckAttr ''poisson'' m instance \<and> CheckAttr ''young'' m instance"
  shows "case mesh_checks m instance i0_init of
           Inl e \<Rightarrow> Create CheckAttr getcfg strtod m d instance i0_init = Inl e
         | Inr _ \<Rightarrow> \<exists>m' s. Create CheckAttr getcfg strtod m d instance i0_init = Inr (m', Some s) \<and>
                       damping s = strtod (getcfg m instance ''damping'')"
proof -
  let ?ctor = "Solid_ctor m instance (strtod (getcfg m instance ''poisson''))
      (strtod (getcfg m instance ''young'')) (strtod (getcfg m instance ''damping'')) i0_init"
  have c: "Create CheckAttr getcfg strtod m d instance i0_init =
      (case ?ctor of Inl e \<Rightarrow> Inl e | Inr (m', s) \<Rightarrow> Inr (m', Some s))"
    using assms by (simp add: Create_def Let_def)
  have o: "map_sum id (\<lambda>_. ()) ?ctor = mesh_checks m instance i0_init"
    by (rule Solid_ctor_outcome)
  show ?thesis
  proof (cases ?ctor)
    case (Inl e)
    have "mesh_checks m instance i0_init = Inl e"
      using o Inl by simp
    then show ?thesis using c Inl by simp
  next
    case (Inr r)
    obtain m' s where r: "r = (m', s)" by (cases r)
    have "damping s = strtod (getcfg m instance ''damping'')"
      using Solid_ctor_damping Inr r by blast
    moreover have "mesh_checks m instance i0_init = Inr ()"
      using o Inr by simp
    ultimately show ?thesis using c Inr r by simp
  qed
qed

lemma Create_None_iff:
  "(\<exists>m'. Create CheckAttr getcfg strtod m d instance i0_init = Inr (m', None)) =
   (\<not> (CheckAttr ''face'' m instance \<and> CheckAttr ''edge'' m instance \<and>
        CheckAttr ''poisson'' m instance \<and> CheckAttr ''young'' m instance))"
  by (auto simp: Create_def Let_def split: sum.splits prod.splits)

lemma mesh_checks_tet: "mesh_checks tet_model 0 0 = Inr ()"
  by code_simp

lemma mesh_checks_flat:
  "mesh_checks ex_flat_model 0 0 = Inl (mju_error ''mujoco.elasticity.solid requires a 3D mesh'')"
  by code_simp

lemma ex_damping: "ex_strtod (ex_config m 0 ''damping'') = - 1"
  by (simp add: ex_strtod_def ex_config_def)

text \<open>
  C8 (as amended).  The factory returns the no-instance value exactly when
  \<open>CheckAttr\<close> rejects one of the attributes \<open>face\<close>, \<open>edge\<close>, \<open>poisson\<close>, \<open>young\<close>.
  When the four are accepted, the values of Young's modulus, Poisson's ratio and the
  damping coefficient are not examined (the damping attribute is not even passed to
  \<open>CheckAttr\<close>): the outcome is decided by the mesh checks alone.  If they fail (the
  flex is not three-dimensional, or a vertex of an element belongs to a foreign
  body) the factory ends in \<open>mju_error\<close>, which is not the no-instance value; if
  they pass, an instance is created and carries the damping coefficient as it was
  configured.  The volume of the rest geometry is not examined.
\<close>

theorem Create_no_instance:
  "((\<exists>m'. Create CheckAttr getcfg strtod m d instance i0_init = Inr (m', None)) =
    (\<not> (CheckAttr ''face'' m instance \<and> CheckAttr ''edge'' m instance \<and>
         CheckAttr ''poisson'' m instance \<and> CheckAttr ''young'' m instance))) \<and>
   (CheckAttr ''face'' m instance \<and> CheckAttr ''edge'' m instance \<and>
    CheckAttr ''poisson'' m instance \<and> CheckAttr ''young'' m instance \<longrightarrow>
      (case mesh_checks m instance i0_init of
         Inl e \<Rightarrow> Create CheckAttr getcfg strtod m d instance i0_init = Inl e
       | Inr _ \<Rightarrow> \<exists>m' s. Create CheckAttr getcfg strtod m d instance i0_init = Inr (m', Some s) \<and>
                     damping s = strtod (getcfg m instance ''damping'')))"
proof (intro conjI impI)
  show "(\<exists>m'. Create CheckAttr getcfg strtod m d instance i0_init = Inr (m', None)) =
    (\<not> (CheckAttr ''face'' m instance \<and> CheckAttr ''edge'' m instance \<and>
         CheckAttr ''poisson'' m instance \<and> CheckAttr ''young'' m instance))"
    by (rule Create_None_iff)
next
  assume "CheckAttr ''face'' m instance \<and> CheckAttr ''edge'' m instance \<and>
    CheckAttr ''poisson'' m instance \<and> CheckAttr ''young'' m instance"
  then show "case mesh_checks m instance i0_init of
         Inl e \<Rightarrow> Create CheckAttr getcfg strtod m d instance i0_init = Inl e
       | Inr _ \<Rightarrow> \<exists>m' s. Create CheckAttr getcfg strtod m d instance i0_init = Inr (m', Some s) \<and>
                     damping s = strtod (getcfg m instance ''damping'')"
    by (rule Create_outcome)
qed

theorem Create_no_instance_witness:
  "(ex_CheckAttr ''face'' tet_model 0 \<and> ex_CheckAttr ''edge'' tet_model 0 \<and>
    ex_CheckAttr ''poisson'' tet_model 0 \<and> ex_CheckAttr ''young'' tet_model 0) \<and>
   (\<exists>m' s. Create ex_CheckAttr ex_config ex_strtod tet_model ex_data 0 0 = Inr (m', Some s) \<and>
      damping s = - 1) \<and>
   (ex_CheckAttr ''face'' ex_flat_model 0 \<and> ex_CheckAttr ''edge'' ex_flat_model 0 \<and>
    ex_CheckAttr ''poisson'' ex_flat_model 0 \<and> ex_CheckAttr ''young'' ex_flat_model 0) \<and>
   Create ex_CheckAttr ex_config ex_strtod ex_flat_model ex_data 0 0 =
     Inl (mju_error ''mujoco.elasticity.solid requires a 3D mesh'')"
proof -
  have a: "ex_CheckAttr ''face'' tet_model 0 \<and> ex_CheckAttr ''edge'' tet_model 0 \<and>
      ex_CheckAttr ''poisson'' tet_model 0 \<and> ex_CheckAttr ''young'' tet_model 0"
    and b: "ex_CheckAttr ''face'' ex_flat_model 0 \<and> ex_CheckAttr ''edge'' ex_flat_model 0 \<and>
      ex_CheckAttr ''poisson'' ex_flat_model 0 \<and> ex_CheckAttr ''young'' ex_flat_model 0"
    by (simp_all add: ex_CheckAttr_def)
  note solid = Create_no_instance [of ex_CheckAttr ex_config ex_strtod tet_model ex_data 0 0,
      THEN conjunct2, THEN mp, OF a]
  note flat = Create_no_instance [of ex_CheckAttr ex_config ex_strtod ex_flat_model ex_data 0 0,
      THEN conjunct2, THEN mp, OF b]
  have 1: "\<exists>m' s. Create ex_CheckAttr ex_config ex_strtod tet_model ex_data 0 0 = Inr (m', Some s) \<and>
      damping s = - 1"
    using solid by (simp add: mesh_checks_tet ex_damping)
  have 2: "Create ex_CheckAttr ex_config ex_strtod ex_flat_model ex_data 0 0 =
      Inl (mju_error ''mujoco.elasticity.solid requires a 3D mesh'')"
    using flat by (simp add: mesh_checks_flat)
  from a 1 b 2 show ?thesis by blast
qed

text \<open>
  The claim as stated has no instance created when a material parameter is invalid.
  With Young's modulus \<open>1000\<close>, Poisson's ratio \<open>0.3\<close> and the damping coefficient
  \<open>-1\<close> on a mesh of one tetrahedron of rest volume \<open>1 / 6\<close> the factory does not
  fail and returns an instance whose damping coefficient is \<open>-1\<close>.
\<close>

theorem Create_negative_damping_counterexample:
  "ex_strtod (ex_config tet_model 0 ''damping'') < 0 \<and>
   ComputeVolume (flex_xvert0 tet_model) (elem_vertices tet_model 0 0) = 1 / 6 \<and>
   \<not> isl (Create ex_CheckAttr ex_config ex_strtod tet_model ex_data 0 0) \<and>
   map_option damping (snd (projr (Create ex_CheckAttr ex_config ex_strtod tet_model ex_data 0 0)))
     = Some (- 1)"
proof -
  have "ex_CheckAttr ''face'' tet_model 0 \<and> ex_CheckAttr ''edge'' tet_model 0 \<and>
      ex_CheckAttr ''poisson'' tet_model 0 \<and> ex_CheckAttr ''young'' tet_model 0"
    by (simp add: ex_CheckAttr_def)
  then have "case mesh_checks tet_model 0 0 of
      Inl e \<Rightarrow> Create ex_CheckAttr ex_config ex_strtod tet_model ex_data 0 0 = Inl e
    | Inr _ \<Rightarrow> \<exists>m' s.
        Create ex_CheckAttr ex_config ex_strtod tet_model ex_data 0 0 = Inr (m', Some s) \<and>
        damping s = ex_strtod (ex_config tet_model 0 ''damping'')"
    by (rule Create_outcome)
  then obtain m' s where
    "Create ex_CheckAttr ex_config ex_strtod tet_model ex_data 0 0 = Inr (m', Some s)"
    "damping s = - 1"
    by (auto simp: mesh_checks_tet ex_damping)
  moreover have "ComputeVolume (flex_xvert0 tet_model) (elem_vertices tet_model 0 0) = 1 / 6"
    by code_simp
  ultimately show ?thesis by (simp add: ex_damping)
qed

subsection \<open>Symmetric basis tensors and the packed entries of MetricTensor\<close>

lemma index3_cases:
  assumes "a < (3::nat)"
  obtains "a = 0" | "a = 1" | "a = 2"
  using assms by arith

lemma trace_prod_symmetric:
  assumes "\<forall>a<3. \<forall>b<3. C ! (3 * a + b) = C ! (3 * b + a)"
  shows "trace_prod B C = double_contraction B C"
  unfolding trace_prod_def double_contraction_def
  by (intro sum.cong refl) (use assms in simp)

lemma outer_nth:
  assumes "a < 3" "b < 3"
  shows "concat (map (\<lambda>i. map (\<lambda>j. f i j) [0..<3]) [0..<3]) ! (3 * a + b) = f a b"
proof -
  have u: "[0..<3] = [0, 1, 2]" by (simp add: upt_rec)
  show ?thesis
    unfolding u
    by (rule index3_cases [OF assms(1)]; rule index3_cases [OF assms(2)]) simp_all
qed

lemma ComputeBasis_symmetric:
  assumes "a < 3" "b < 3"
  shows "ComputeBasis x v faceL faceR volume ! (3 * a + b) =
         ComputeBasis x v faceL faceR volume ! (3 * b + a)"
  unfolding ComputeBasis_def Let_def outer_nth [OF assms] outer_nth [OF assms(2,1)]
  by (simp add: mult.commute add.commute)

lemma symmetric3_nth:
  assumes "symmetric3 C" "a < 3" "b < 3"
  shows "C ! (3 * a + b) = C ! (3 * b + a)"
  using assms(1)
  by (rule_tac index3_cases [OF assms(2)]; rule_tac index3_cases [OF assms(3)])
     (simp_all add: symmetric3_def eval_nat_numeral)

lemma ComputeBasis_symmetric3: "symmetric3 (ComputeBasis x v faceL faceR volume)"
  using ComputeBasis_symmetric [of 0 1 x v faceL faceR volume]
    ComputeBasis_symmetric [of 0 2 x v faceL faceR volume]
    ComputeBasis_symmetric [of 1 2 x v faceL faceR volume]
  by (simp add: symmetric3_def eval_nat_numeral)

text \<open>
  The array of basis tensors that the constructor hands to MetricTensor
  (solid.cc, lines 148-154) consists of symmetric tensors.
\<close>

lemma constructor_basis_symmetric:
  assumes "e < kNumEdges Stencil3D"
  shows "symmetric3
     (map (\<lambda>e. ComputeBasis body_pos v (face ! (e2f ! e ! 0)) (face ! (e2f ! e ! 1)) volume)
        [0..<kNumEdges Stencil3D] ! e)"
  using assms by (simp add: ComputeBasis_symmetric3)

lemma MetricTensor_entry_ComputeBasis:
  assumes "i \<le> j" "j < kNumEdges T"
    and "basis ! j = ComputeBasis x v faceL faceR volume"
  shows "\<exists>metric'. MetricTensor T metric idx mu la basis = Inr metric' \<and>
     metric' (21 * idx + tri_index (kNumEdges T) i j) =
       mu * double_contraction (basis ! i) (basis ! j) +
       la * trace3 (basis ! j) * trace3 (basis ! i)"
proof -
  have "trace_prod (basis ! i) (basis ! j) = double_contraction (basis ! i) (basis ! j)"
    by (rule trace_prod_symmetric) (simp add: assms(3) ComputeBasis_symmetric)
  then show ?thesis
    using MetricTensor_entry [OF assms(1,2), of metric idx mu la basis] by simp
qed

text \<open>
  C3.  For every element whose basis tensors \<open>B[0..E-1]\<close> are symmetric (the tensors
  of an element are symmetrised outer products, and those that the constructor
  builds with ComputeBasis are symmetric), every shear modulus \<open>mu\<close> and Lame
  parameter \<open>la\<close>, MetricTensor returns normally and, for every edge pair \<open>(i, j)\<close>
  with \<open>i \<le> j < E\<close>, the packed entry at position
  \<open>21 idx + i (2 E - i + 1) / 2 + (j - i)\<close> (upper triangle, row-major) is
  \<open>mu trEE[i,j] + la trE[i] trE[j]\<close>, where \<open>trE[i]\<close> is the trace of \<open>B[i]\<close> and
  \<open>trEE[i,j]\<close> is the double contraction \<open>trace (B[i] B[j]\<^sup>T)\<close>.
\<close>

theorem MetricTensor_packed_entry:
  assumes "i \<le> j" "j < kNumEdges T"
    and "\<forall>e<kNumEdges T. symmetric3 (basis ! e)"
  shows "\<exists>metric'. MetricTensor T metric idx mu la basis = Inr metric' \<and>
     metric' (21 * idx + tri_index (kNumEdges T) i j) =
       mu * double_contraction (basis ! i) (basis ! j) +
       la * trace3 (basis ! i) * trace3 (basis ! j)"
proof -
  have "symmetric3 (basis ! j)" using assms(2,3) by blast
  then have "trace_prod (basis ! i) (basis ! j) = double_contraction (basis ! i) (basis ! j)"
    by (intro trace_prod_symmetric allI impI) (rule symmetric3_nth)
  then show ?thesis
    using MetricTensor_entry [OF assms(1,2), of metric idx mu la basis]
    by (simp add: mult.commute mult.left_commute)
qed

theorem MetricTensor_packed_entry_witness:
  "(0::nat) \<le> 1 \<and> 1 < kNumEdges Stencil2D \<and>
   symmetric3 (basis_diag ! 0) \<and> symmetric3 (basis_diag ! 1) \<and>
   symmetric3 (basis_diag ! 2) \<and>
   double_contraction (basis_diag ! 0) (basis_diag ! 1) = 6 \<and>
   projr (MetricTensor Stencil2D zero_mem 0 2 5 basis_diag) 1 = 102"
proof -
  have h: "(0::nat) \<le> 1" "1 < kNumEdges Stencil2D" by simp_all
  have s: "\<forall>e<kNumEdges Stencil2D. symmetric3 (basis_diag ! e)"
  proof (intro allI impI)
    fix e
    assume "e < kNumEdges Stencil2D"
    then have "e < 3" by simp
    then show "symmetric3 (basis_diag ! e)"
      by (rule index3_cases) (simp_all add: symmetric3_def basis_diag_def)
  qed
  have d: "double_contraction (basis_diag ! 0) (basis_diag ! 1) = 6"
    by (simp add: double_contraction_def basis_diag_def sum_lessThan_3)
  have t: "trace3 (basis_diag ! 0) = 6" "trace3 (basis_diag ! 1) = 3"
    by (simp_all add: trace3_def basis_diag_def)
  have x: "tri_index 3 0 1 = 1" by (simp add: tri_index_def)
  have "projr (MetricTensor Stencil2D zero_mem 0 2 5 basis_diag) 1 = 102"
    using MetricTensor_packed_entry [OF h s, of zero_mem 0 2 5] d t x by auto
  moreover have "symmetric3 (basis_diag ! 0)" "symmetric3 (basis_diag ! 1)"
    "symmetric3 (basis_diag ! 2)"
    using s by simp_all
  ultimately show ?thesis using h d by (intro conjI)
qed

text \<open>
  The symmetry of the tensors is needed: the second invariant that the code
  accumulates is the trace of the product \<open>B[i] B[j]\<close>.  For the tensor
  \<open>[0, 1, 0, 0, 0, 0, 0, 0, 0]\<close>, which is not symmetric, with \<open>mu = 1\<close> and \<open>la = 0\<close>
  the packed entry \<open>(0, 0)\<close> is \<open>0\<close>, while the double contraction is \<open>1\<close>.
\<close>

lemma MetricTensor_asymmetric_example:
  "\<not> symmetric3 (basis_asym ! 0) \<and>
   projr (MetricTensor Stencil2D zero_mem 0 1 0 basis_asym) (21 * 0 + tri_index 3 0 0) = 0 \<and>
   double_contraction (basis_asym ! 0) (basis_asym ! 0) = 1"
proof -
  have "trace_prod (basis_asym ! 0) (basis_asym ! 0) = 0"
    by (simp add: trace_prod_def basis_asym_def sum_lessThan_3)
  moreover have "double_contraction (basis_asym ! 0) (basis_asym ! 0) = 1"
    by (simp add: double_contraction_def basis_asym_def sum_lessThan_3)
  moreover have "\<not> symmetric3 (basis_asym ! 0)"
    by (simp add: symmetric3_def basis_asym_def)
  ultimately show ?thesis
    using MetricTensor_entry [of 0 0 Stencil2D zero_mem 0 1 0 basis_asym] by auto
qed

end
